theory Spec2Isabelle
  imports Main "HOL-Library.AList"
begin

section \<open>Strings as the code uses them\<close>

text \<open>
  A JavaScript string is the list of its UTF-16 code units, each a number; \<open>js\<close> writes an
  ASCII literal as such a list and \<open>jc\<close> a single ASCII character. The bytes of a file are
  a list of 8-bit characters. The JavaScript string operations the tracking code relies on
  are written out: \<open>split('\n')\<close>, \<open>trim()\<close>, \<open>endsWith\<close>, the regular-expression
  replacements, and \<open>path.join\<close> on a POSIX host.
\<close>

type_synonym jstring = "nat list"

type_synonym bytes = "char list"

abbreviation jc :: "char \<Rightarrow> nat" where
  "jc c \<equiv> of_char c"

abbreviation js :: "char list \<Rightarrow> jstring" where
  "js s \<equiv> map of_char s"

definition newline :: nat where
  "newline = 0x0A"

definition backslash :: nat where
  "backslash = 0x5C"

text \<open>\<open>s.split('\n')\<close>: always at least one piece; the last piece is what follows the
  last line feed.\<close>

fun split_nl :: "jstring \<Rightarrow> jstring list" where
  "split_nl [] = [[]]"
| "split_nl (c # cs) =
     (if c = newline then [] # split_nl cs
      else (case split_nl cs of [] \<Rightarrow> [[c]] | l # ls \<Rightarrow> (c # l) # ls))"

text \<open>
  The code units \<open>trim()\<close> strips from both ends: the white space of ECMAScript, which is
  tab (U+0009), vertical tab (U+000B), form feed (U+000C), the byte-order mark (U+FEFF)
  and the space separators of Unicode (U+0020, U+00A0, U+1680, U+2000 to U+200A, U+202F,
  U+205F, U+3000), and its line terminators, which are line feed (U+000A), carriage return
  (U+000D), U+2028 and U+2029.
\<close>

definition isWhite :: "nat \<Rightarrow> bool" where
  "isWhite c =
     (c = 0x09 \<or> c = 0x0A \<or> c = 0x0B \<or> c = 0x0C \<or> c = 0x0D \<or> c = 0x20 \<or> c = 0xA0 \<or>
      c = 0x1680 \<or> (0x2000 \<le> c \<and> c \<le> 0x200A) \<or> c = 0x2028 \<or> c = 0x2029 \<or>
      c = 0x202F \<or> c = 0x205F \<or> c = 0x3000 \<or> c = 0xFEFF)"

definition trim :: "jstring \<Rightarrow> jstring" where
  "trim s = rev (dropWhile isWhite (rev (dropWhile isWhite s)))"

definition endsWith :: "jstring \<Rightarrow> jstring \<Rightarrow> bool" where
  "endsWith s suffix = (length suffix \<le> length s \<and> drop (length s - length suffix) s = suffix)"

definition path_join :: "jstring \<Rightarrow> jstring \<Rightarrow> jstring" where
  "path_join d f = d @ (js ''/'') @ f"

section \<open>Project directory names\<close>

text \<open>
  \<open>getProjectDirPath\<close> (extension.ts) turns the working directory into the name of the
  session directory with \<open>workspacePath.replace(/[:\\/]/g, '-')\<close>; the scanner turns a
  directory name back into a project name with
  \<open>dirName.replace(/^-/, '/').replace(/-/g, '/')\<close>.
\<close>

definition dirName_of :: "jstring \<Rightarrow> jstring" where
  "dirName_of workspacePath =
     map (\<lambda>c. if c = (jc (CHR '':'')) \<or> c = backslash \<or> c = (jc (CHR ''/'')) then (jc (CHR ''-'')) else c) workspacePath"

definition getProjectDirPath :: "jstring \<Rightarrow> jstring option \<Rightarrow> jstring option \<Rightarrow> jstring option" where
  "getProjectDirPath homedir cwd workspaceFolder =
     (let workspacePath = (case cwd of Some c \<Rightarrow> (if c \<noteq> [] then Some c else workspaceFolder)
                                      | None \<Rightarrow> workspaceFolder)
      in case workspacePath of
           None \<Rightarrow> None
         | Some w \<Rightarrow> (if w = [] then None
                      else Some (path_join (path_join (path_join homedir (js ''.claude'')) (js ''projects'')) (dirName_of w))))"

definition replace_leading_dash :: "jstring \<Rightarrow> jstring" where
  "replace_leading_dash s = (case s of [] \<Rightarrow> [] | c # cs \<Rightarrow> (if c = (jc (CHR ''-'')) then (jc (CHR ''/'')) # cs else s))"

definition replace_all_dash :: "jstring \<Rightarrow> jstring" where
  "replace_all_dash s = map (\<lambda>c. if c = (jc (CHR ''-'')) then (jc (CHR ''/'')) else c) s"

definition projectName_of :: "jstring \<Rightarrow> jstring" where
  "projectName_of dirName = replace_all_dash (replace_leading_dash dirName)"

definition plain_path :: "jstring \<Rightarrow> bool" where
  "plain_path p = (\<forall>c \<in> set p. c \<noteq> (jc (CHR '':'')) \<and> c \<noteq> backslash \<and> c \<noteq> (jc (CHR ''-'')))"

section \<open>The file system as the code sees it\<close>

text \<open>
  One value of \<open>fs\<close> is what Node answers during one handler:
  \<open>readdir\<close> gives the entries of a directory with their \<open>isDirectory()\<close> flag,
  \<open>mtimeMs\<close> the modification time \<open>statSync\<close> reports, \<open>contents\<close> the bytes of a file
  (their number is \<open>stat.size\<close>), \<open>None\<close> where the call throws; \<open>readFails\<close> tells
  whether \<open>openSync\<close>/\<open>readSync\<close> throws on a file that \<open>statSync\<close> accepted;
  \<open>toString_utf8\<close> is \<open>Buffer.prototype.toString('utf-8')\<close>, the decoder of Node that
  turns the bytes of a buffer into a string; \<open>now\<close> is \<open>Date.now()\<close>. Times are
  milliseconds.
\<close>

record fs =
  readdir :: "jstring \<Rightarrow> (jstring \<times> bool) list option"
  mtimeMs :: "jstring \<Rightarrow> int option"
  contents :: "jstring \<Rightarrow> bytes option"
  readFails :: "jstring \<Rightarrow> bool"
  existsSync :: "jstring \<Rightarrow> bool"
  toString_utf8 :: "bytes \<Rightarrow> jstring"
  now :: int

definition basename :: "jstring \<Rightarrow> jstring" where
  "basename p = rev (takeWhile (\<lambda>c. c \<noteq> (jc (CHR ''/''))) (rev p))"

definition dirname :: "jstring \<Rightarrow> jstring" where
  "dirname p = rev (drop 1 (dropWhile (\<lambda>c. c \<noteq> (jc (CHR ''/''))) (rev p)))"

section \<open>SessionScanner (server/sessionScanner.ts, the first file of src/unnamed/part_001)\<close>

record ClusterNode =
  name :: jstring
  host :: jstring
  isLocal :: bool

record SessionInfo =
  node :: ClusterNode
  projectDir :: jstring
  jsonlFile :: jstring
  projectName :: jstring

record SessionScanner =
  knownFiles :: "jstring set"
  initialScanDone :: bool
  nodes :: "ClusterNode list"
  activeThresholdMin :: int

definition new_SessionScanner :: "ClusterNode list \<Rightarrow> int \<Rightarrow> SessionScanner" where
  "new_SessionScanner ns thr =
     \<lparr>knownFiles = {}, initialScanDone = False, nodes = ns, activeThresholdMin = thr\<rparr>"

text \<open>The key \<open>`${node}:${file}`\<close> under which a file is remembered.\<close>

definition known_key :: "jstring \<Rightarrow> jstring \<Rightarrow> jstring" where
  "known_key nodeName file = nodeName @ (js '':'') @ file"

definition markKnown :: "jstring \<Rightarrow> jstring \<Rightarrow> SessionScanner \<Rightarrow> SessionScanner" where
  "markKnown nodeName file sc = sc\<lparr>knownFiles := insert (known_key nodeName file) (knownFiles sc)\<rparr>"

text \<open>The body of the loop over the files of one project directory in \<open>scanLocal\<close>.
  The second component collects the calls of \<open>onNewSession\<close>, in order.\<close>

definition scanLocal_file ::
  "fs \<Rightarrow> ClusterNode \<Rightarrow> jstring \<Rightarrow> jstring \<Rightarrow> SessionScanner \<times> SessionInfo list
     \<Rightarrow> SessionScanner \<times> SessionInfo list" where
  "scanLocal_file env nd pdir file acc =
     (let sc = fst acc; out = snd acc; key = known_key (name nd) file in
      if key \<in> knownFiles sc then acc
      else
        let sc1 = sc\<lparr>knownFiles := insert key (knownFiles sc)\<rparr>;
            session = \<lparr>node = nd, projectDir = pdir, jsonlFile = file,
                       projectName = projectName_of (basename pdir)\<rparr>
        in if \<not> initialScanDone sc then
             (case mtimeMs env file of
                None \<Rightarrow> (sc1, out)
              | Some m \<Rightarrow>
                  if now env - m > activeThresholdMin sc * 60 * 1000 then (sc1, out)
                  else (sc1, out @ [session]))
           else (sc1, out @ [session]))"

fun scanLocal_files ::
  "fs \<Rightarrow> ClusterNode \<Rightarrow> jstring \<Rightarrow> jstring list \<Rightarrow> SessionScanner \<times> SessionInfo list
     \<Rightarrow> SessionScanner \<times> SessionInfo list" where
  "scanLocal_files env nd pdir [] acc = acc"
| "scanLocal_files env nd pdir (file # files) acc =
     scanLocal_files env nd pdir files (scanLocal_file env nd pdir file acc)"

definition jsonl_files :: "jstring \<Rightarrow> (jstring \<times> bool) list \<Rightarrow> jstring list" where
  "jsonl_files pdir ents =
     map (path_join pdir) (filter (\<lambda>f. endsWith f (js ''.jsonl'')) (map fst ents))"

fun scanLocal_dirs ::
  "fs \<Rightarrow> ClusterNode \<Rightarrow> jstring list \<Rightarrow> SessionScanner \<times> SessionInfo list
     \<Rightarrow> SessionScanner \<times> SessionInfo list" where
  "scanLocal_dirs env nd [] acc = acc"
| "scanLocal_dirs env nd (pdir # pdirs) acc =
     (case readdir env pdir of
        None \<Rightarrow> scanLocal_dirs env nd pdirs acc
      | Some ents \<Rightarrow>
          scanLocal_dirs env nd pdirs (scanLocal_files env nd pdir (jsonl_files pdir ents) acc))"

definition project_dirs :: "jstring \<Rightarrow> (jstring \<times> bool) list \<Rightarrow> jstring list" where
  "project_dirs claudeDir ents = map (\<lambda>d. path_join claudeDir (fst d)) (filter snd ents)"

text \<open>\<open>claudeDir\<close> is \<open>path.join(os.homedir(), '.claude', 'projects')\<close>.\<close>

definition scanLocal ::
  "fs \<Rightarrow> jstring \<Rightarrow> ClusterNode \<Rightarrow> SessionScanner \<times> SessionInfo list
     \<Rightarrow> SessionScanner \<times> SessionInfo list" where
  "scanLocal env claudeDir nd acc =
     (case readdir env claudeDir of
        None \<Rightarrow> acc
      | Some ents \<Rightarrow> scanLocal_dirs env nd (project_dirs claudeDir ents) acc)"

text \<open>The regular expression \<open>/\.claude\/projects\/([^/]+)\//\<close>: the leftmost place where
  the literal is followed by a non-empty run of characters other than \<open>/\<close> and then a
  \<open>/\<close>; the result is the run (\<open>match[1]\<close>).\<close>

definition match_here :: "jstring \<Rightarrow> jstring option" where
  "match_here s =
     (let lit = (js ''.claude/projects/'') in
      if take (length lit) s = lit then
        (let rest = drop (length lit) s; run = takeWhile (\<lambda>x. x \<noteq> (jc (CHR ''/''))) rest in
         if run \<noteq> [] \<and> drop (length run) rest \<noteq> [] then Some run else None)
      else None)"

fun match_projects :: "jstring \<Rightarrow> jstring option" where
  "match_projects [] = None"
| "match_projects (c # cs) =
     (case match_here (c # cs) of Some run \<Rightarrow> Some run | None \<Rightarrow> match_projects cs)"

text \<open>\<open>s.indexOf(pat)\<close> where \<open>pat\<close> occurs in \<open>s\<close> (the only use the scanner makes).\<close>

fun indexOf :: "jstring \<Rightarrow> jstring \<Rightarrow> nat" where
  "indexOf [] pat = 0"
| "indexOf (c # cs) pat = (if take (length pat) (c # cs) = pat then 0 else Suc (indexOf cs pat))"

text \<open>The body of the loop over the lines of the reply in the callback of \<open>scanRemote\<close>.\<close>

definition scanRemote_file ::
  "ClusterNode \<Rightarrow> jstring \<Rightarrow> SessionScanner \<times> SessionInfo list \<Rightarrow> SessionScanner \<times> SessionInfo list" where
  "scanRemote_file nd file acc =
     (let sc = fst acc; out = snd acc; key = known_key (name nd) file in
      if key \<in> knownFiles sc then acc
      else
        let sc1 = sc\<lparr>knownFiles := insert key (knownFiles sc)\<rparr>;
            m = match_projects file;
            dirName = (case m of Some d \<Rightarrow> d | None \<Rightarrow> (js ''unknown''));
            pdir = (case m of Some d \<Rightarrow> take (indexOf file dirName + length dirName) file
                            | None \<Rightarrow> dirname file)
        in (sc1, out @ [\<lparr>node = nd, projectDir = pdir, jsonlFile = file,
                          projectName = projectName_of dirName\<rparr>]))"

fun scanRemote_files ::
  "ClusterNode \<Rightarrow> jstring list \<Rightarrow> SessionScanner \<times> SessionInfo list \<Rightarrow> SessionScanner \<times> SessionInfo list" where
  "scanRemote_files nd [] acc = acc"
| "scanRemote_files nd (file # files) acc = scanRemote_files nd files (scanRemote_file nd file acc)"

text \<open>The callback of \<open>execFile('ssh', ...)\<close> in \<open>scanRemote\<close>: \<open>err\<close> tells whether the
  command failed, \<open>stdout\<close> is what it printed.\<close>

definition scanRemote_reply ::
  "ClusterNode \<Rightarrow> bool \<Rightarrow> jstring \<Rightarrow> SessionScanner \<times> SessionInfo list \<Rightarrow> SessionScanner \<times> SessionInfo list" where
  "scanRemote_reply nd err stdout acc =
     (if err then acc
      else scanRemote_files nd (filter (\<lambda>l. l \<noteq> []) (split_nl (trim stdout))) acc)"

text \<open>
  The command \<open>scanRemote\<close> sends is
  \<open>find ~/.claude/projects -name "*.jsonl" -mmin -${activeThresholdMin}\<close>. The remote side
  is a list of the files below that directory, each with its path as \<open>find\<close> prints it and
  the minutes since its last modification as \<open>find\<close> counts them; \<open>-mmin -N\<close> keeps a file
  modified less than \<open>N\<close> minutes ago, and every path is printed on a line of its own.
\<close>

record remote_file =
  rf_path :: jstring
  rf_age_min :: int

record remote_host =
  reachable :: bool
  remote_files :: "remote_file list"

definition find_selected :: "int \<Rightarrow> remote_file list \<Rightarrow> jstring list" where
  "find_selected thr files =
     map rf_path (filter (\<lambda>f. endsWith (rf_path f) (js ''.jsonl'') \<and> rf_age_min f < thr) files)"

definition find_stdout :: "int \<Rightarrow> remote_file list \<Rightarrow> jstring" where
  "find_stdout thr files = concat (map (\<lambda>p. p @ [newline]) (find_selected thr files))"


text \<open>\<open>scan\<close>: the local nodes are scanned at once; the command for a remote node is only
  started, its callback runs later, after \<open>initialScanDone\<close> has been set.\<close>

fun scan_nodes ::
  "fs \<Rightarrow> jstring \<Rightarrow> ClusterNode list \<Rightarrow> SessionScanner \<times> SessionInfo list
     \<Rightarrow> SessionScanner \<times> SessionInfo list" where
  "scan_nodes env claudeDir [] acc = acc"
| "scan_nodes env claudeDir (nd # nds) acc =
     scan_nodes env claudeDir nds (if isLocal nd then scanLocal env claudeDir nd acc else acc)"

definition scan ::
  "fs \<Rightarrow> jstring \<Rightarrow> SessionScanner \<times> SessionInfo list \<Rightarrow> SessionScanner \<times> SessionInfo list" where
  "scan env claudeDir acc =
     (let r = scan_nodes env claudeDir (nodes (fst acc)) acc
      in ((fst r)\<lparr>initialScanDone := True\<rparr>, snd r))"

text \<open>What can happen to a scanner during its lifetime: a scan (at start and on every
  tick of the timer), the callback of a remote command with whatever the command printed,
  a call of \<open>markKnown\<close>.\<close>

datatype scanner_event =
    Scan fs jstring
  | RemoteReply ClusterNode bool jstring
  | MarkKnown jstring jstring

fun scanner_step ::
  "scanner_event \<Rightarrow> SessionScanner \<times> SessionInfo list \<Rightarrow> SessionScanner \<times> SessionInfo list" where
  "scanner_step (Scan env claudeDir) acc = scan env claudeDir acc"
| "scanner_step (RemoteReply nd err stdout) acc = scanRemote_reply nd err stdout acc"
| "scanner_step (MarkKnown n f) acc = (markKnown n f (fst acc), snd acc)"

fun scanner_run ::
  "scanner_event list \<Rightarrow> SessionScanner \<times> SessionInfo list \<Rightarrow> SessionScanner \<times> SessionInfo list" where
  "scanner_run [] acc = acc"
| "scanner_run (e # es) acc = scanner_run es (scanner_step e acc)"

text \<open>The identity of a discovered session: node name and path.\<close>

definition session_id :: "SessionInfo \<Rightarrow> jstring \<times> jstring" where
  "session_id s = (name (node s), jsonlFile s)"

section \<open>Transcript records and notifications (extension.ts)\<close>

text \<open>
  What \<open>processTranscriptLine\<close> reads from a parsed line. \<open>JSON.parse\<close> itself is a
  parameter of the model (\<open>parse\<close>, \<open>None\<close> where it throws). A missing \<open>id\<close>, \<open>name\<close> or
  \<open>tool_use_id\<close> is the empty string, which the code treats like a missing one;
  \<open>rcontent\<close> is \<open>record.message?.content\<close>.
\<close>

record tool_input =
  file_path :: "jstring option"
  command :: "jstring option"

record block =
  btype :: jstring
  bid :: jstring
  bname :: jstring
  binput :: tool_input
  tool_use_id :: jstring

datatype jcontent = CArray "block list" | CString jstring | COther

record transcript_record =
  rtype :: jstring
  rsubtype :: jstring
  rcontent :: jcontent

datatype agent_status = active | waiting

datatype message =
    AgentToolStart nat jstring jstring
  | AgentToolDone nat jstring
  | AgentToolsClear nat
  | AgentStatus nat agent_status

text \<open>The character U+2026 that \<open>formatToolStatus\<close> appends to a cut command.\<close>

definition ellipsis :: jstring where
  "ellipsis = [0x2026]"

definition formatToolStatus :: "jstring \<Rightarrow> tool_input \<Rightarrow> jstring" where
  "formatToolStatus toolName input =
     (let base = (\<lambda>p. case p of Some q \<Rightarrow> basename q | None \<Rightarrow> []) in
      if toolName = (js ''Read'') then (js ''Reading '') @ base (file_path input)
      else if toolName = (js ''Edit'') then (js ''Editing '') @ base (file_path input)
      else if toolName = (js ''Write'') then (js ''Writing '') @ base (file_path input)
      else if toolName = (js ''Bash'') then
        (let cmd = (case command input of Some c \<Rightarrow> c | None \<Rightarrow> [])
         in (js ''Running: '') @ (if length cmd > 30 then take 30 cmd @ ellipsis else cmd))
      else if toolName = (js ''Glob'') then (js ''Searching files'')
      else if toolName = (js ''Grep'') then (js ''Searching code'')
      else if toolName = (js ''WebFetch'') then (js ''Fetching web content'')
      else if toolName = (js ''WebSearch'') then (js ''Searching the web'')
      else if toolName = (js ''Task'') then (js ''Running subtask'')
      else if toolName = (js ''AskUserQuestion'') then (js ''Waiting for your answer'')
      else if toolName = (js ''EnterPlanMode'') then (js ''Planning'')
      else if toolName = (js ''NotebookEdit'') then (js ''Editing notebook'')
      else (js ''Using '') @ toolName)"

section \<open>The state of ArcadiaViewProvider (extension.ts)\<close>

record PersistedAgentState =
  ps_sessionId :: jstring
  ps_projectDir :: jstring
  ps_folderId :: jstring
  ps_lastFile :: "jstring option"

text \<open>
  The maps of the provider that the transcript watching uses, under their names.
  \<open>agentProjectDirs\<close> keeps its insertion order (the code iterates over it);
  \<open>activeToolStatuses\<close> too. A timer is present in \<open>waitingTimers\<close> (with its delay),
  \<open>pollingTimers\<close> or \<open>dirScanTimers\<close> while it is armed; \<open>doneTimers\<close> are the pending
  300 ms time-outs of \<open>agentToolDone\<close>, oldest first. \<open>posted\<close> collects the messages handed
  to \<open>webview.postMessage\<close>, in order.
\<close>

record provider =
  agentSessionIds :: "nat \<rightharpoonup> jstring"
  watchedFiles :: "nat \<rightharpoonup> jstring"
  agentProjectDirs :: "(nat \<times> jstring) list"
  claimedFiles :: "jstring set"
  knownFilesAtLaunch :: "nat \<rightharpoonup> jstring set"
  dirScanTimers :: "nat set"
  lastDataTime :: "nat \<rightharpoonup> int"
  fileWatchers :: "nat \<rightharpoonup> jstring"
  pollingTimers :: "nat \<rightharpoonup> jstring"
  fileOffsets :: "nat \<rightharpoonup> nat"
  lineBuffers :: "nat \<rightharpoonup> jstring"
  activeToolIds :: "nat \<rightharpoonup> jstring set"
  waitingTimers :: "nat \<rightharpoonup> int"
  activeToolStatuses :: "nat \<rightharpoonup> (jstring \<times> jstring) list"
  agentWaitingStatus :: "nat \<rightharpoonup> bool"
  doneTimers :: "(nat \<times> jstring) list"
  posted :: "message list"
  persistedStates :: "nat \<rightharpoonup> PersistedAgentState"
  disposing :: bool

definition new_provider :: provider where
  "new_provider =
     \<lparr>agentSessionIds = Map.empty, watchedFiles = Map.empty, agentProjectDirs = [],
      claimedFiles = {}, knownFilesAtLaunch = Map.empty, dirScanTimers = {},
      lastDataTime = Map.empty, fileWatchers = Map.empty, pollingTimers = Map.empty,
      fileOffsets = Map.empty, lineBuffers = Map.empty, activeToolIds = Map.empty,
      waitingTimers = Map.empty, activeToolStatuses = Map.empty,
      agentWaitingStatus = Map.empty, doneTimers = [], posted = [],
      persistedStates = Map.empty, disposing = False\<rparr>"

definition postMessage :: "message \<Rightarrow> provider \<Rightarrow> provider" where
  "postMessage m st = st\<lparr>posted := posted st @ [m]\<rparr>"

definition removePersistedState :: "nat \<Rightarrow> provider \<Rightarrow> provider" where
  "removePersistedState agentId st = st\<lparr>persistedStates := (persistedStates st)(agentId := None)\<rparr>"

definition updatePersistedFile :: "nat \<Rightarrow> jstring \<Rightarrow> provider \<Rightarrow> provider" where
  "updatePersistedFile agentId filePath st =
     (case persistedStates st agentId of
        None \<Rightarrow> st
      | Some p \<Rightarrow> st\<lparr>persistedStates := (persistedStates st)(agentId \<mapsto> p\<lparr>ps_lastFile := Some filePath\<rparr>)\<rparr>)"

subsection \<open>Activity: timers and transcript lines\<close>

definition clearAgentActivity :: "nat \<Rightarrow> provider \<Rightarrow> provider" where
  "clearAgentActivity agentId st =
     postMessage (AgentStatus agentId active)
       (postMessage (AgentToolsClear agentId)
          (st\<lparr>activeToolIds := (activeToolIds st)(agentId := None),
               activeToolStatuses := (activeToolStatuses st)(agentId := None),
               agentWaitingStatus := (agentWaitingStatus st)(agentId := None)\<rparr>))"

definition cancelWaitingTimer :: "nat \<Rightarrow> provider \<Rightarrow> provider" where
  "cancelWaitingTimer agentId st = st\<lparr>waitingTimers := (waitingTimers st)(agentId := None)\<rparr>"

definition startWaitingTimer :: "nat \<Rightarrow> int \<Rightarrow> provider \<Rightarrow> provider" where
  "startWaitingTimer agentId delayMs st =
     (let st1 = cancelWaitingTimer agentId st
      in st1\<lparr>waitingTimers := (waitingTimers st1)(agentId \<mapsto> delayMs)\<rparr>)"

text \<open>The callback of the waiting timer. A timer that was cleared does not fire, so the
  callback only runs for the timer that is in the map.\<close>

definition fireWaitingTimer :: "nat \<Rightarrow> provider \<Rightarrow> provider" where
  "fireWaitingTimer agentId st =
     (case waitingTimers st agentId of
        None \<Rightarrow> st
      | Some d \<Rightarrow>
          postMessage (AgentStatus agentId waiting)
            (st\<lparr>waitingTimers := (waitingTimers st)(agentId := None),
                 agentWaitingStatus := (agentWaitingStatus st)(agentId \<mapsto> True)\<rparr>))"

text \<open>The callback of the oldest pending 300 ms time-out.\<close>

definition fireDoneTimer :: "provider \<Rightarrow> provider" where
  "fireDoneTimer st =
     (case doneTimers st of
        [] \<Rightarrow> st
      | t # ts \<Rightarrow> postMessage (AgentToolDone (fst t) (snd t)) (st\<lparr>doneTimers := ts\<rparr>))"

definition toolStart :: "nat \<Rightarrow> block \<Rightarrow> provider \<Rightarrow> provider" where
  "toolStart agentId b st =
     (if btype b = (js ''tool_use'') \<and> bid b \<noteq> [] then
        (let status = formatToolStatus (bname b) (binput b);
             act = (case activeToolIds st agentId of None \<Rightarrow> {} | Some s \<Rightarrow> s);
             cached = (case activeToolStatuses st agentId of None \<Rightarrow> [] | Some m \<Rightarrow> m)
         in postMessage (AgentToolStart agentId (bid b) status)
              (st\<lparr>activeToolIds := (activeToolIds st)(agentId \<mapsto> insert (bid b) act),
                   activeToolStatuses :=
                     (activeToolStatuses st)(agentId \<mapsto> AList.update (bid b) status cached)\<rparr>))
      else st)"

definition toolDone :: "nat \<Rightarrow> block \<Rightarrow> provider \<Rightarrow> provider" where
  "toolDone agentId b st =
     (if btype b = (js ''tool_result'') \<and> tool_use_id b \<noteq> [] then
        (let toolId = tool_use_id b in
         st\<lparr>activeToolIds :=
              (case activeToolIds st agentId of
                 None \<Rightarrow> activeToolIds st
               | Some s \<Rightarrow> (activeToolIds st)(agentId \<mapsto> s - {toolId})),
            activeToolStatuses :=
              (case activeToolStatuses st agentId of
                 None \<Rightarrow> activeToolStatuses st
               | Some m \<Rightarrow> (activeToolStatuses st)(agentId \<mapsto> AList.delete toolId m)),
            doneTimers := doneTimers st @ [(agentId, toolId)]\<rparr>)
      else st)"

definition processRecord :: "nat \<Rightarrow> transcript_record \<Rightarrow> provider \<Rightarrow> provider" where
  "processRecord agentId r st =
     (if rtype r = (js ''assistant'') \<and> (case rcontent r of CArray bs \<Rightarrow> True | _ \<Rightarrow> False) then
        (case rcontent r of
           CArray blocks \<Rightarrow>
             if list_ex (\<lambda>b. btype b = (js ''tool_use'')) blocks then
               (let st1 = cancelWaitingTimer agentId st;
                    st2 = st1\<lparr>agentWaitingStatus := (agentWaitingStatus st1)(agentId := None)\<rparr>;
                    st3 = postMessage (AgentStatus agentId active) st2
                in foldl (\<lambda>s b. toolStart agentId b s) st3 blocks)
             else if list_ex (\<lambda>b. btype b = (js ''text'')) blocks then startWaitingTimer agentId 2000 st
             else st
         | _ \<Rightarrow> st)
      else if rtype r = (js ''user'') then
        (case rcontent r of
           CArray blocks \<Rightarrow>
             if list_ex (\<lambda>b. btype b = (js ''tool_result'')) blocks then
               foldl (\<lambda>s b. toolDone agentId b s) st blocks
             else clearAgentActivity agentId (cancelWaitingTimer agentId st)
         | CString content \<Rightarrow>
             if trim content \<noteq> [] then clearAgentActivity agentId (cancelWaitingTimer agentId st)
             else st
         | COther \<Rightarrow> st)
      else if rtype r = (js ''system'') \<and> rsubtype r = (js ''turn_duration'') then
        (let st1 = cancelWaitingTimer agentId st
         in postMessage (AgentStatus agentId waiting)
              (st1\<lparr>agentWaitingStatus := (agentWaitingStatus st1)(agentId \<mapsto> True)\<rparr>))
      else st)"

definition processTranscriptLine ::
  "(jstring \<Rightarrow> transcript_record option) \<Rightarrow> nat \<Rightarrow> jstring \<Rightarrow> provider \<Rightarrow> provider" where
  "processTranscriptLine parse agentId line st =
     (case parse line of None \<Rightarrow> st | Some r \<Rightarrow> processRecord agentId r st)"

subsection \<open>Tailing a file\<close>

text \<open>
  The first half of \<open>readNewLines\<close>, up to the loop: \<open>None\<close> when the routine returns
  without doing anything (\<open>statSync\<close> throws, nothing new, or the read throws), otherwise the
  state with offset, time and line buffer updated, and the lines the loop hands to
  \<open>processTranscriptLine\<close>, in order. The bytes read are the bytes of the file from the
  offset to its size; they are decoded on their own, as \<open>buf.toString('utf-8')\<close> does, and
  the stored line buffer, which is text already, is put in front of the result.
\<close>

text \<open>\<open>this.fileOffsets.get(id) || 0\<close> and \<open>this.lineBuffers.get(id) || ''\<close>.\<close>

definition offset_of :: "provider \<Rightarrow> nat \<Rightarrow> nat" where
  "offset_of st agentId = (case fileOffsets st agentId of None \<Rightarrow> 0 | Some n \<Rightarrow> n)"

definition buffer_of :: "provider \<Rightarrow> nat \<Rightarrow> jstring" where
  "buffer_of st agentId = (case lineBuffers st agentId of None \<Rightarrow> [] | Some b \<Rightarrow> b)"

definition read_chunk :: "fs \<Rightarrow> nat \<Rightarrow> jstring \<Rightarrow> provider \<Rightarrow> (provider \<times> jstring list) option" where
  "read_chunk env agentId filePath st =
     (case contents env filePath of
        None \<Rightarrow> None
      | Some bytes \<Rightarrow>
          (let size = length bytes;
               offset = offset_of st agentId
           in if size \<le> offset then None
              else if readFails env filePath then None
              else
                (let buf = take (size - offset) (drop offset bytes);
                     st1 = st\<lparr>fileOffsets := (fileOffsets st)(agentId \<mapsto> size),
                              lastDataTime := (lastDataTime st)(agentId \<mapsto> now env)\<rparr>;
                     text = buffer_of st1 agentId @ toString_utf8 env buf;
                     lines = split_nl text;
                     st2 = st1\<lparr>lineBuffers := (lineBuffers st1)(agentId \<mapsto> last lines)\<rparr>
                 in Some (st2, filter (\<lambda>line. trim line \<noteq> []) (butlast lines)))))"

definition readNewLines ::
  "fs \<Rightarrow> (jstring \<Rightarrow> transcript_record option) \<Rightarrow> nat \<Rightarrow> jstring \<Rightarrow> provider \<Rightarrow> provider" where
  "readNewLines env parse agentId filePath st =
     (case read_chunk env agentId filePath st of
        None \<Rightarrow> st
      | Some r \<Rightarrow> foldl (\<lambda>s line. processTranscriptLine parse agentId line s) (fst r) (snd r))"

subsection \<open>Ownership of files\<close>

text \<open>\<open>claimFile\<close> up to its initial read: the maps are set, the watcher (when \<open>fs.watch\<close>
  does not throw, that is when the file exists) and the polling timer are installed.\<close>

definition claim_state :: "fs \<Rightarrow> nat \<Rightarrow> jstring \<Rightarrow> provider \<Rightarrow> provider" where
  "claim_state env agentId filePath st =
     (let st1 = st\<lparr>watchedFiles := (watchedFiles st)(agentId \<mapsto> filePath),
                  claimedFiles := insert filePath (claimedFiles st),
                  fileOffsets := (fileOffsets st)(agentId \<mapsto> 0),
                  lineBuffers := (lineBuffers st)(agentId \<mapsto> []),
                  lastDataTime := (lastDataTime st)(agentId \<mapsto> now env)\<rparr>;
          st2 = (if existsSync env filePath
                 then st1\<lparr>fileWatchers := (fileWatchers st1)(agentId \<mapsto> filePath)\<rparr> else st1)
      in st2\<lparr>pollingTimers := (pollingTimers st2)(agentId \<mapsto> filePath)\<rparr>)"

definition claimFile ::
  "fs \<Rightarrow> (jstring \<Rightarrow> transcript_record option) \<Rightarrow> nat \<Rightarrow> jstring \<Rightarrow> provider \<Rightarrow> provider" where
  "claimFile env parse agentId filePath st =
     updatePersistedFile agentId filePath
       (readNewLines env parse agentId filePath (claim_state env agentId filePath st))"

definition switchFile ::
  "fs \<Rightarrow> (jstring \<Rightarrow> transcript_record option) \<Rightarrow> nat \<Rightarrow> jstring \<Rightarrow> provider \<Rightarrow> provider" where
  "switchFile env parse agentId newFilePath st =
     (let oldFile = watchedFiles st agentId;
          st1 = st\<lparr>fileWatchers := (fileWatchers st)(agentId := None),
                   pollingTimers := (pollingTimers st)(agentId := None)\<rparr>;
          st2 = (case oldFile of
                   None \<Rightarrow> st1
                 | Some old \<Rightarrow>
                     if old = [] then st1
                     else st1\<lparr>claimedFiles := claimedFiles st1 - {old},
                              knownFilesAtLaunch :=
                                (case knownFilesAtLaunch st1 agentId of
                                   None \<Rightarrow> knownFilesAtLaunch st1
                                 | Some k \<Rightarrow> (knownFilesAtLaunch st1)(agentId \<mapsto> insert old k))\<rparr>);
          st3 = cancelWaitingTimer agentId st2;
          st4 = st3\<lparr>activeToolIds := (activeToolIds st3)(agentId := None),
                    activeToolStatuses := (activeToolStatuses st3)(agentId := None),
                    agentWaitingStatus := (agentWaitingStatus st3)(agentId := None)\<rparr>;
          st5 = postMessage (AgentToolsClear agentId) st4
      in claimFile env parse agentId newFilePath st5)"

definition stopWatching :: "nat \<Rightarrow> provider \<Rightarrow> provider" where
  "stopWatching agentId st =
     (let st1 = st\<lparr>dirScanTimers := dirScanTimers st - {agentId},
                   fileWatchers := (fileWatchers st)(agentId := None),
                   pollingTimers := (pollingTimers st)(agentId := None)\<rparr>;
          st2 = (case watchedFiles st1 agentId of
                   None \<Rightarrow> st1
                 | Some file \<Rightarrow>
                     if file = [] then st1 else st1\<lparr>claimedFiles := claimedFiles st1 - {file}\<rparr>);
          st3 = st2\<lparr>watchedFiles := (watchedFiles st2)(agentId := None)\<rparr>;
          st4 = cancelWaitingTimer agentId st3;
          st5 = st4\<lparr>agentProjectDirs := AList.delete agentId (agentProjectDirs st4),
                    agentSessionIds := (agentSessionIds st4)(agentId := None),
                    knownFilesAtLaunch := (knownFilesAtLaunch st4)(agentId := None),
                    lastDataTime := (lastDataTime st4)(agentId := None),
                    activeToolIds := (activeToolIds st4)(agentId := None),
                    activeToolStatuses := (activeToolStatuses st4)(agentId := None),
                    agentWaitingStatus := (agentWaitingStatus st4)(agentId := None),
                    fileOffsets := (fileOffsets st4)(agentId := None),
                    lineBuffers := (lineBuffers st4)(agentId := None)\<rparr>
      in if \<not> disposing st5 then removePersistedState agentId st5 else st5)"

subsection \<open>Scanning a project directory for the file of an agent\<close>

text \<open>\<open>this.lastDataTime.get(id) || 0\<close>.\<close>

definition lastData_of :: "provider \<Rightarrow> nat \<Rightarrow> int" where
  "lastData_of st agentId = (case lastDataTime st agentId of None \<Rightarrow> 0 | Some t \<Rightarrow> t)"

text \<open>A string that JavaScript takes as true in a condition: present and not empty.\<close>

definition truthy :: "jstring option \<Rightarrow> bool" where
  "truthy v = (case v of None \<Rightarrow> False | Some s \<Rightarrow> s \<noteq> [])"

text \<open>The comparator of \<open>unclaimed.sort\<close>: newest first, \<open>0\<close> when \<open>statSync\<close> throws.
  The sort is stable; where all the files can be read, the result is the one every stable
  sort gives.\<close>

definition mtime_cmp :: "fs \<Rightarrow> jstring \<Rightarrow> jstring \<Rightarrow> int" where
  "mtime_cmp env a b =
     (case mtimeMs env b of
        None \<Rightarrow> 0
      | Some mb \<Rightarrow> (case mtimeMs env a of None \<Rightarrow> 0 | Some ma \<Rightarrow> mb - ma))"

fun insert_by :: "('a \<Rightarrow> 'a \<Rightarrow> int) \<Rightarrow> 'a \<Rightarrow> 'a list \<Rightarrow> 'a list" where
  "insert_by cmp x [] = [x]"
| "insert_by cmp x (y # ys) = (if cmp x y \<le> 0 then x # y # ys else y # insert_by cmp x ys)"

definition sort_by :: "('a \<Rightarrow> 'a \<Rightarrow> int) \<Rightarrow> 'a list \<Rightarrow> 'a list" where
  "sort_by cmp xs = foldr (insert_by cmp) xs []"

text \<open>The loop over \<open>agentProjectDirs\<close> in \<open>scanForNewFile\<close>: is there another agent of the
  same project directory that watches a file, is stale for more than 3 s and received data
  later than this one?\<close>

definition has_priority :: "fs \<Rightarrow> provider \<Rightarrow> nat \<Rightarrow> jstring \<Rightarrow> int \<Rightarrow> nat \<times> jstring \<Rightarrow> bool" where
  "has_priority env st agentId pdir lastData other =
     (if fst other = agentId \<or> snd other \<noteq> pdir then False
      else if watchedFiles st (fst other) = None then False
      else (let otherLastData = lastData_of st (fst other)
            in now env - otherLastData > 3000 \<and> otherLastData > lastData))"

definition genericScan ::
  "fs \<Rightarrow> (jstring \<Rightarrow> transcript_record option) \<Rightarrow> nat \<Rightarrow> jstring \<Rightarrow> provider \<Rightarrow> provider" where
  "genericScan env parse agentId pdir st =
     (case readdir env pdir of
        None \<Rightarrow> st
      | Some ents \<Rightarrow>
          (let files = jsonl_files pdir ents;
               known = (case knownFilesAtLaunch st agentId of None \<Rightarrow> {} | Some k \<Rightarrow> k);
               unclaimed = filter (\<lambda>f. f \<notin> known \<and> f \<notin> claimedFiles st) files
           in if unclaimed = [] then st
              else
                (let candidate = hd (sort_by (mtime_cmp env) unclaimed) in
                 if \<not> truthy (watchedFiles st agentId) then claimFile env parse agentId candidate st
                 else
                   (let lastData = lastData_of st agentId in
                    if now env - lastData \<le> 3000 then st
                    else if list_ex (has_priority env st agentId pdir lastData) (agentProjectDirs st)
                    then st
                    else switchFile env parse agentId candidate st))))"

definition scanForNewFile ::
  "fs \<Rightarrow> (jstring \<Rightarrow> transcript_record option) \<Rightarrow> nat \<Rightarrow> provider \<Rightarrow> provider" where
  "scanForNewFile env parse agentId st =
     (case map_of (agentProjectDirs st) agentId of
        None \<Rightarrow> st
      | Some pdir \<Rightarrow>
          if pdir = [] then st
          else if truthy (agentSessionIds st agentId) then
            (if \<not> truthy (watchedFiles st agentId) then
               (let expectedFile = path_join pdir (the (agentSessionIds st agentId) @ (js ''.jsonl''))
                in if existsSync env expectedFile then claimFile env parse agentId expectedFile st
                   else st)
             else if now env - lastData_of st agentId \<le> 3000 then st
             else genericScan env parse agentId pdir st)
          else genericScan env parse agentId pdir st)"

subsection \<open>Starting to watch an agent\<close>

text \<open>\<open>startWatchingAgent\<close>: \<open>homedir\<close> is \<open>os.homedir()\<close>, \<open>workspaceFolder\<close> the first
  workspace folder. \<open>createClaudeTerminal\<close> is reduced to what it does to these maps: it
  records a fresh session id (\<open>uuid\<close>, from \<open>crypto.randomUUID()\<close>) unless the session is
  continued, and starts watching.\<close>

definition startWatchingAgent ::
  "fs \<Rightarrow> jstring \<Rightarrow> jstring option \<Rightarrow> nat \<Rightarrow> jstring option \<Rightarrow> provider \<Rightarrow> provider" where
  "startWatchingAgent env homedir workspaceFolder agentId cwd st =
     (case getProjectDirPath homedir cwd workspaceFolder of
        None \<Rightarrow> st
      | Some pdir \<Rightarrow>
          (let existing = (if existsSync env pdir
                           then (case readdir env pdir of None \<Rightarrow> {}
                                 | Some ents \<Rightarrow> set (jsonl_files pdir ents))
                           else {})
           in st\<lparr>agentProjectDirs := AList.update agentId pdir (agentProjectDirs st),
                  knownFilesAtLaunch := (knownFilesAtLaunch st)(agentId \<mapsto> existing),
                  dirScanTimers := insert agentId (dirScanTimers st)\<rparr>))"

definition createClaudeTerminal ::
  "fs \<Rightarrow> jstring \<Rightarrow> jstring option \<Rightarrow> nat \<Rightarrow> jstring option \<Rightarrow> bool \<Rightarrow> jstring \<Rightarrow> provider \<Rightarrow> provider" where
  "createClaudeTerminal env homedir workspaceFolder agentId cwd continueSession uuid st =
     startWatchingAgent env homedir workspaceFolder agentId cwd
       (if continueSession then st
        else st\<lparr>agentSessionIds := (agentSessionIds st)(agentId \<mapsto> uuid)\<rparr>)"

section \<open>The standalone server: creating an agent for a local session (server/index.ts, the third file of src/unnamed/part_001)\<close>

text \<open>
  \<open>AgentState\<close> as \<open>createLocalAgent\<close> fills it in (the field \<open>terminalRef\<close>, always
  \<open>null\<close> here, is left out).
\<close>

record AgentState =
  ag_id :: nat
  ag_projectDir :: jstring
  ag_jsonlFile :: jstring
  ag_fileOffset :: nat
  ag_lineBuffer :: jstring
  ag_activeToolIds :: "jstring set"
  ag_activeToolStatuses :: "(jstring \<times> jstring) list"
  ag_activeToolNames :: "(jstring \<times> jstring) list"
  ag_activeSubagentToolIds :: "(jstring \<times> jstring set) list"
  ag_activeSubagentToolNames :: "(jstring \<times> (jstring \<times> jstring) list) list"
  ag_isWaiting :: bool
  ag_permissionSent :: bool
  ag_hadToolsInTurn :: bool

datatype server_message =
    AgentCreated nat jstring jstring jstring
  | AgentClosed nat

text \<open>\<open>watching\<close> records the calls of \<open>startFileWatching\<close>: the agent and its file.\<close>

record server =
  agents :: "nat \<rightharpoonup> AgentState"
  agentNodeNames :: "nat \<rightharpoonup> jstring"
  agentProjectNames :: "nat \<rightharpoonup> jstring"
  nextAgentId :: nat
  watching :: "nat \<rightharpoonup> jstring"
  broadcast :: "server_message list"

definition NODE_COLORS :: "jstring \<Rightarrow> jstring option" where
  "NODE_COLORS n =
     (if n = (js ''mac-studio'') then Some (js ''#00ffff'')
      else if n = (js ''macbook-air'') then Some (js ''#00ff88'')
      else if n = (js ''macmini'') then Some (js ''#ff00ff'')
      else if n = (js ''macpro51'') then Some (js ''#ffaa00'')
      else None)"

definition createLocalAgent :: "fs \<Rightarrow> SessionInfo \<Rightarrow> server \<Rightarrow> server" where
  "createLocalAgent env session sv =
     (let i = nextAgentId sv;
          agent = \<lparr>ag_id = i, ag_projectDir = projectDir session, ag_jsonlFile = jsonlFile session,
                   ag_fileOffset = 0, ag_lineBuffer = [], ag_activeToolIds = {},
                   ag_activeToolStatuses = [], ag_activeToolNames = [],
                   ag_activeSubagentToolIds = [], ag_activeSubagentToolNames = [],
                   ag_isWaiting = False, ag_permissionSent = False, ag_hadToolsInTurn = False\<rparr>;
          agent1 = (case contents env (jsonlFile session) of
                      None \<Rightarrow> agent
                    | Some bytes \<Rightarrow> agent\<lparr>ag_fileOffset := length bytes\<rparr>);
          nodeName = name (node session);
          nodeColor = (case NODE_COLORS nodeName of Some c \<Rightarrow> c | None \<Rightarrow> (js ''#888888''))
      in sv\<lparr>nextAgentId := i + 1,
             agents := (agents sv)(i \<mapsto> agent1),
             agentNodeNames := (agentNodeNames sv)(i \<mapsto> nodeName),
             agentProjectNames := (agentProjectNames sv)(i \<mapsto> projectName session),
             broadcast := broadcast sv @ [AgentCreated i nodeName (projectName session) nodeColor],
             watching := (watching sv)(i \<mapsto> jsonlFile session)\<rparr>)"

text \<open>
  Modelled from the spec: the read routine behind \<open>startFileWatching\<close> (src/fileWatcher.ts,
  which is not among the sources). Section 4.2: compare the current file size to the stored
  byte offset; if there is nothing new, do nothing; otherwise read exactly the new bytes,
  put the stored line remainder in front, split on line boundaries, store the last,
  possibly incomplete, fragment back as the remainder, forward each complete line to the
  parser in order, and update the byte offset after a successful read. The line remainder
  of \<open>AgentState\<close> is a string, so the new bytes are decoded before they are joined to it.
  The result is the agent after the read and the lines forwarded.
\<close>

definition fileWatcher_read :: "fs \<Rightarrow> jstring \<Rightarrow> AgentState \<Rightarrow> (AgentState \<times> jstring list) option" where
  "fileWatcher_read env filePath agent =
     (case contents env filePath of
        None \<Rightarrow> None
      | Some bytes \<Rightarrow>
          if length bytes \<le> ag_fileOffset agent \<or> readFails env filePath then None
          else
            (let lines = split_nl (ag_lineBuffer agent @
                                   toString_utf8 env (drop (ag_fileOffset agent) bytes))
             in Some (agent\<lparr>ag_fileOffset := length bytes, ag_lineBuffer := last lines\<rparr>,
                      butlast lines)))"

text \<open>
  Modelled from the spec: what \<open>startFileWatching\<close> sets up (section 4.2). The filesystem
  watch and the poll both end in the read routine of the agent and file they were started
  for; an agent for which no watching was started is never read. The result is the server
  after the read and the lines forwarded to the parser.
\<close>

definition fileWatcher_fires :: "fs \<Rightarrow> nat \<Rightarrow> server \<Rightarrow> server \<times> jstring list" where
  "fileWatcher_fires env agentId sv =
     (case watching sv agentId of
        None \<Rightarrow> (sv, [])
      | Some filePath \<Rightarrow>
          (case agents sv agentId of
             None \<Rightarrow> (sv, [])
           | Some agent \<Rightarrow>
               (case fileWatcher_read env filePath agent of
                  None \<Rightarrow> (sv, [])
                | Some r \<Rightarrow> (sv\<lparr>agents := (agents sv)(agentId \<mapsto> fst r)\<rparr>, snd r))))"

section \<open>Notions used in the results\<close>

text \<open>The key of an emitted session in the scanner's set; the invariant of the scanner:
  whatever was emitted is in the set, and no key was emitted twice.\<close>

definition emitted_key :: "SessionInfo \<Rightarrow> jstring" where
  "emitted_key s = known_key (name (node s)) (jsonlFile s)"

definition scan_inv :: "SessionScanner \<times> SessionInfo list \<Rightarrow> bool" where
  "scan_inv acc = ((\<forall>s \<in> set (snd acc). emitted_key s \<in> knownFiles (fst acc)) \<and>
                   distinct (map emitted_key (snd acc)))"




text \<open>The invariant of \<open>claimedFiles\<close>: a path is claimed exactly when some agent watches
  it, no two agents watch the same path, and no watched path is empty.\<close>

definition own_ok :: "(nat \<rightharpoonup> jstring) \<Rightarrow> jstring set \<Rightarrow> bool" where
  "own_ok w c =
     ((\<forall>f. f \<in> c \<longleftrightarrow> (\<exists>a. w a = Some f)) \<and>
      (\<forall>a b f. w a = Some f \<and> w b = Some f \<longrightarrow> a = b) \<and>
      (\<forall>a. w a \<noteq> Some []))"

definition ownership_inv :: "provider \<Rightarrow> bool" where
  "ownership_inv st = own_ok (watchedFiles st) (claimedFiles st)"

text \<open>A tool id that is neither in the agent's set of active tools nor in its cached
  statuses.\<close>

definition unmatched :: "provider \<Rightarrow> nat \<Rightarrow> jstring \<Rightarrow> bool" where
  "unmatched st agentId toolId =
     ((case activeToolIds st agentId of None \<Rightarrow> True | Some s \<Rightarrow> toolId \<notin> s) \<and>
      (case activeToolStatuses st agentId of None \<Rightarrow> True | Some m \<Rightarrow> toolId \<notin> fst ` set m))"

definition is_tool_result :: "block \<Rightarrow> bool" where
  "is_tool_result b = (btype b = (js ''tool_result'') \<and> tool_use_id b \<noteq> [])"

text \<open>A user record that the code takes as a new prompt: an array without a
  \<open>tool_result\<close> block, or a string that is not blank.\<close>

definition new_prompt :: "transcript_record \<Rightarrow> bool" where
  "new_prompt r =
     (rtype r = (js ''user'') \<and>
      (case rcontent r of
         CArray blocks \<Rightarrow> \<not> list_ex (\<lambda>b. btype b = (js ''tool_result'')) blocks
       | CString content \<Rightarrow> trim content \<noteq> []
       | COther \<Rightarrow> False))"

text \<open>An assistant record with text and without a tool use; one with a tool use.\<close>

definition text_only :: "transcript_record \<Rightarrow> bool" where
  "text_only r =
     (rtype r = (js ''assistant'') \<and>
      (case rcontent r of
         CArray blocks \<Rightarrow> \<not> list_ex (\<lambda>b. btype b = (js ''tool_use'')) blocks \<and>
                          list_ex (\<lambda>b. btype b = (js ''text'')) blocks
       | _ \<Rightarrow> False))"

definition has_tool_use :: "transcript_record \<Rightarrow> bool" where
  "has_tool_use r =
     (rtype r = (js ''assistant'') \<and>
      (case rcontent r of
         CArray blocks \<Rightarrow> list_ex (\<lambda>b. btype b = (js ''tool_use'')) blocks
       | _ \<Rightarrow> False))"

section \<open>Concrete inputs\<close>

text \<open>The inputs at which the results below are evaluated. Their files hold ASCII bytes
  only; on such bytes UTF-8 decoding gives each byte as one code unit, which is what the
  decoder of these inputs does.\<close>

subsection \<open>A scanner with one local and one remote node\<close>

definition ex_local :: ClusterNode where
  "ex_local = \<lparr>name = (js ''studio''), host = (js ''localhost''), isLocal = True\<rparr>"

definition ex_remote :: ClusterNode where
  "ex_remote = \<lparr>name = (js ''mini''), host = (js ''10.0.0.2''), isLocal = False\<rparr>"

definition ex_claudeDir :: jstring where
  "ex_claudeDir = (js ''/h/.claude/projects'')"

text \<open>One project directory with one session file, last modified at time 0; the clock
  shows \<open>t\<close>.\<close>

definition ex_disk :: "int \<Rightarrow> fs" where
  "ex_disk t =
     \<lparr>readdir = (\<lambda>d. if d = (js ''/h/.claude/projects'') then Some [((js ''-w-app''), True)]
                     else if d = (js ''/h/.claude/projects/-w-app'')
                     then Some [((js ''s1.jsonl''), False), ((js ''notes.txt''), False)]
                     else None),
      mtimeMs = (\<lambda>f. Some 0), contents = (\<lambda>f. None), readFails = (\<lambda>f. False),
      existsSync = (\<lambda>f. True), toString_utf8 = map of_char, now = t\<rparr>"

definition ex_session :: SessionInfo where
  "ex_session = \<lparr>node = ex_local, projectDir = (js ''/h/.claude/projects/-w-app''),
                  jsonlFile = (js ''/h/.claude/projects/-w-app/s1.jsonl''), projectName = (js ''/w/app'')\<rparr>"


definition ex_host_recent :: remote_host where
  "ex_host_recent = \<lparr>reachable = True,
     remote_files = [\<lparr>rf_path = (js ''/home/u/.claude/projects/-w-app/s2.jsonl''), rf_age_min = 3\<rparr>]\<rparr>"


definition ex_scanner :: SessionScanner where
  "ex_scanner = new_SessionScanner [ex_local, ex_remote] 10"

text \<open>Two scans of the same disk, each followed by the same reply of the remote node.\<close>

definition ex_events :: "scanner_event list" where
  "ex_events =
     [Scan (ex_disk 1000) ex_claudeDir,
      RemoteReply ex_remote False (find_stdout 10 (remote_files ex_host_recent)),
      Scan (ex_disk 4000) ex_claudeDir,
      RemoteReply ex_remote False (find_stdout 10 (remote_files ex_host_recent))]"

subsection \<open>Transcript records\<close>

definition ex_block :: "jstring \<Rightarrow> jstring \<Rightarrow> jstring \<Rightarrow> block" where
  "ex_block t i u =
     \<lparr>btype = t, bid = i, bname = (js ''Read''),
      binput = \<lparr>file_path = Some (js ''/w/app/a.ts''), command = None\<rparr>, tool_use_id = u\<rparr>"

definition ex_tool_use :: transcript_record where
  "ex_tool_use = \<lparr>rtype = (js ''assistant''), rsubtype = [], rcontent = CArray [ex_block (js ''tool_use'') (js ''t1'') []]\<rparr>"

definition ex_tool_result :: transcript_record where
  "ex_tool_result = \<lparr>rtype = (js ''user''), rsubtype = [], rcontent = CArray [ex_block (js ''tool_result'') [] (js ''t1'')]\<rparr>"

definition ex_prompt :: transcript_record where
  "ex_prompt = \<lparr>rtype = (js ''user''), rsubtype = [], rcontent = CString (js ''go on'')\<rparr>"

text \<open>A prompt that consists of a space and a no-break space.\<close>

definition ex_blank_prompt :: transcript_record where
  "ex_blank_prompt = \<lparr>rtype = (js ''user''), rsubtype = [], rcontent = CString [0x20, 0xA0]\<rparr>"

definition ex_text :: transcript_record where
  "ex_text = \<lparr>rtype = (js ''assistant''), rsubtype = [], rcontent = CArray [ex_block (js ''text'') [] []]\<rparr>"

text \<open>Agent 1 with one running tool, \<open>t1\<close>.\<close>

definition ex_busy :: provider where
  "ex_busy = processRecord 1 ex_tool_use new_provider"

definition no_parse :: "jstring \<Rightarrow> transcript_record option" where
  "no_parse line = None"

subsection \<open>A transcript with a blank line and an unfinished last line\<close>

definition c4_file :: jstring where
  "c4_file = (js ''/p/s.jsonl'')"

definition c4_text :: bytes where
  "c4_text = [CHR '' '', CHR 0x0A, CHR ''x'', CHR 0x0A, CHR ''y'']"

definition c4_env :: fs where
  "c4_env = \<lparr>readdir = (\<lambda>d. None), mtimeMs = (\<lambda>f. Some 0),
     contents = (\<lambda>f. if f = c4_file then Some c4_text else None),
     readFails = (\<lambda>f. False), existsSync = (\<lambda>f. f = c4_file), toString_utf8 = map of_char,
     now = 5000\<rparr>"

subsection \<open>Two agents in one project directory\<close>

definition ex_home :: jstring where
  "ex_home = (js ''/home/dev'')"

definition ex_ws :: jstring where
  "ex_ws = (js ''/w/app'')"

definition ex_pdir :: jstring where
  "ex_pdir = (js ''/home/dev/.claude/projects/-w-app'')"

text \<open>The project directory with the given files; the clock shows \<open>t\<close>.\<close>

definition c3_a :: jstring where
  "c3_a = (js ''/home/dev/.claude/projects/-w-app/a.jsonl'')"

definition c3_b :: jstring where
  "c3_b = (js ''/home/dev/.claude/projects/-w-app/b.jsonl'')"

definition c3_c :: jstring where
  "c3_c = (js ''/home/dev/.claude/projects/-w-app/c.jsonl'')"

definition c3_env :: "jstring list \<Rightarrow> int \<Rightarrow> fs" where
  "c3_env names t =
     \<lparr>readdir = (\<lambda>d. if d = ex_pdir then Some (map (\<lambda>n. (n, False)) names) else None),
      mtimeMs = (\<lambda>f. if f = c3_a then Some 2000 else if f = c3_b then Some 4000
                      else if f = c3_c then Some 9000 else None),
      contents = (\<lambda>f. Some []), readFails = (\<lambda>f. False),
      existsSync = (\<lambda>f. f = ex_pdir \<or> f \<in> set (map (path_join ex_pdir) names)),
      toString_utf8 = map of_char, now = t\<rparr>"

text \<open>
  First history. Agent 1 is restarted with \<open>--continue\<close> (as \<open>handleMoveAgent\<close> does), so
  it has no session id, while the directory holds the file \<open>a.jsonl\<close> of an earlier
  session; agent 2 is launched with the session id \<open>b\<close>; the file \<open>b.jsonl\<close> appears; the
  scan timer of agent 1 fires, then the scan timer of agent 2.
\<close>

definition c1_run :: provider where
  "c1_run =
     scanForNewFile (c3_env [(js ''a.jsonl''), (js ''b.jsonl'')] 2000) no_parse 2
       (scanForNewFile (c3_env [(js ''a.jsonl''), (js ''b.jsonl'')] 2000) no_parse 1
          (createClaudeTerminal (c3_env [(js ''a.jsonl'')] 1000) ex_home (Some ex_ws) 2 None False (js ''b'')
             (createClaudeTerminal (c3_env [(js ''a.jsonl'')] 1000) ex_home (Some ex_ws) 1 (Some ex_ws) True []
                new_provider)))"

text \<open>
  Second history. Agent 1 is launched with the session id \<open>a\<close> in an empty directory and
  claims \<open>a.jsonl\<close> at time 2000; agent 2 is launched with the session id \<open>b\<close> when
  \<open>a.jsonl\<close> exists and claims \<open>b.jsonl\<close> at time 4000. At time 10000 both files have
  been silent for more than 3 s and a new file \<open>c.jsonl\<close> is in the directory (agent 2 has
  run \<open>/clear\<close>); the scan timer of agent 2 fires, then the one of agent 1.
\<close>

definition c3_start :: provider where
  "c3_start =
     scanForNewFile (c3_env [(js ''a.jsonl''), (js ''b.jsonl'')] 4000) no_parse 2
       (createClaudeTerminal (c3_env [(js ''a.jsonl'')] 3000) ex_home (Some ex_ws) 2 None False (js ''b'')
          (scanForNewFile (c3_env [(js ''a.jsonl'')] 2000) no_parse 1
             (createClaudeTerminal (c3_env [] 1000) ex_home (Some ex_ws) 1 None False (js ''a'')
                new_provider)))"

definition c3_env_new :: fs where
  "c3_env_new = c3_env [(js ''a.jsonl''), (js ''b.jsonl''), (js ''c.jsonl'')] 10000"

definition c3_winner :: provider where
  "c3_winner = scanForNewFile c3_env_new no_parse 2 c3_start"

definition c3_cycle :: provider where
  "c3_cycle = scanForNewFile c3_env_new no_parse 1 c3_winner"

subsection \<open>A session file that grows after its discovery\<close>

definition new_server :: server where
  "new_server = \<lparr>agents = Map.empty, agentNodeNames = Map.empty, agentProjectNames = Map.empty,
                  nextAgentId = 1, watching = Map.empty, broadcast = []\<rparr>"

definition c10_present :: bytes where
  "c10_present = ''old'' @ [CHR 0x0A]"

definition c10_appended :: bytes where
  "c10_appended = ''new'' @ [CHR 0x0A] @ ''par''"

definition c10_env :: "bytes \<Rightarrow> fs" where
  "c10_env bytes =
     \<lparr>readdir = (\<lambda>d. None), mtimeMs = (\<lambda>f. Some 0),
      contents = (\<lambda>f. if f = (js ''/h/.claude/projects/-w-app/s1.jsonl'') then Some bytes else None),
      readFails = (\<lambda>f. False), existsSync = (\<lambda>f. True), toString_utf8 = map of_char,
      now = 7000\<rparr>"

section \<open>Project directory names: results\<close>

lemma projectName_of_map:
  "projectName_of d = map (\<lambda>c. if c = (jc (CHR ''-'')) then (jc (CHR ''/'')) else c) d"
  by (cases d) (simp_all add: projectName_of_def replace_all_dash_def replace_leading_dash_def)

lemma roundtrip_map:
  "projectName_of (dirName_of p) =
     map (\<lambda>c. if c = (jc (CHR '':'')) \<or> c = backslash \<or> c = (jc (CHR ''/'')) \<or> c = (jc (CHR ''-'')) then (jc (CHR ''/'')) else c) p"
  by (simp add: projectName_of_map dirName_of_def)

lemma roundtrip_iff: "projectName_of (dirName_of p) = p \<longleftrightarrow> plain_path p"
proof -
  have "map (\<lambda>c. if c = (jc (CHR '':'')) \<or> c = backslash \<or> c = (jc (CHR ''/'')) \<or> c = (jc (CHR ''-'')) then (jc (CHR ''/'')) else c) p = p
        \<longleftrightarrow> plain_path p"
    unfolding plain_path_def
    by (induction p) (auto simp: backslash_def)
  then show ?thesis by (simp add: roundtrip_map)
qed

text \<open>
  C9 (as the code has it). The directory name is not a reversible encoding: a path that
  contains \<open>-\<close>, \<open>:\<close> or a backslash does not come back, and it shares its directory name with
  the path that has \<open>/\<close> in those places. Decoding the encoding of a path gives the path back
  exactly when the path contains none of these three characters, and on such paths the
  encoding is injective.
\<close>

theorem C9_projectKey_roundtrip_plain:
  "(projectName_of (dirName_of p) = p \<longleftrightarrow> plain_path p) \<and>
   (plain_path p \<and> plain_path q \<and> dirName_of p = dirName_of q \<longrightarrow> p = q)"
proof
  show "projectName_of (dirName_of p) = p \<longleftrightarrow> plain_path p" by (rule roundtrip_iff)
next
  show "plain_path p \<and> plain_path q \<and> dirName_of p = dirName_of q \<longrightarrow> p = q"
  proof
    assume h: "plain_path p \<and> plain_path q \<and> dirName_of p = dirName_of q"
    from h have e: "dirName_of p = dirName_of q" by simp
    from h have "plain_path p" by simp
    then have rp: "projectName_of (dirName_of p) = p" by (simp only: roundtrip_iff)
    from h have "plain_path q" by simp
    then have rq: "projectName_of (dirName_of q) = q" by (simp only: roundtrip_iff)
    from rp e have "projectName_of (dirName_of q) = p" by (simp only:)
    with rq show "p = q" by (simp only:)
  qed
qed

theorem C9_projectKey_roundtrip_plain_witness:
  "plain_path (js ''/home/dev/arcadia'') \<and>
   projectName_of (dirName_of (js ''/home/dev/arcadia'')) = (js ''/home/dev/arcadia'')"
  using C9_projectKey_roundtrip_plain [of "(js ''/home/dev/arcadia'')" "(js ''/home/dev/arcadia'')"]
  by (simp add: plain_path_def backslash_def)

text \<open>
  C9 (as stated) fails: \<open>/a-b\<close> is decoded as \<open>/a/b\<close>, and the two distinct paths have the
  same directory name.
\<close>

theorem C9_projectKey_counterexample:
  "projectName_of (dirName_of (js ''/a-b'')) \<noteq> (js ''/a-b'') \<and>
   dirName_of (js ''/a-b'') = dirName_of (js ''/a/b'') \<and> (js ''/a-b'') \<noteq> (js ''/a/b'')"
  by (simp add: projectName_of_def replace_all_dash_def replace_leading_dash_def dirName_of_def backslash_def)


section \<open>Lines of a text\<close>

lemma split_nl_nonempty [simp]: "split_nl s \<noteq> []"
  by (induction s) (auto split: list.splits)

lemma split_nl_no_newline: "l \<in> set (split_nl t) \<Longrightarrow> newline \<notin> set l"
  by (induction t arbitrary: l) (auto split: list.splits if_splits)

lemma split_nl_decomp:
  "concat (map (\<lambda>l. l @ [newline]) (butlast (split_nl t))) @ last (split_nl t) = t"
  by (induction t) (auto split: list.splits)

lemma in_set_butlast_split: "l \<in> set (butlast (split_nl t)) \<Longrightarrow> newline \<notin> set l"
  by (meson in_set_butlastD split_nl_no_newline)







section \<open>SessionScanner: results\<close>

lemma scanLocal_file_inv: "scan_inv acc \<Longrightarrow> scan_inv (scanLocal_file env nd pdir file acc)"
  by (auto simp: scanLocal_file_def scan_inv_def Let_def emitted_key_def split: option.splits)

lemma scanLocal_files_inv: "scan_inv acc \<Longrightarrow> scan_inv (scanLocal_files env nd pdir files acc)"
  by (induction files arbitrary: acc) (simp_all add: scanLocal_file_inv)

lemma scanLocal_dirs_inv: "scan_inv acc \<Longrightarrow> scan_inv (scanLocal_dirs env nd pdirs acc)"
  by (induction pdirs arbitrary: acc) (simp_all add: scanLocal_files_inv split: option.splits)

lemma scanLocal_inv: "scan_inv acc \<Longrightarrow> scan_inv (scanLocal env claudeDir nd acc)"
  by (simp add: scanLocal_def scanLocal_dirs_inv split: option.splits)

lemma scanRemote_file_inv: "scan_inv acc \<Longrightarrow> scan_inv (scanRemote_file nd file acc)"
  by (auto simp: scanRemote_file_def scan_inv_def Let_def emitted_key_def)

lemma scanRemote_files_inv: "scan_inv acc \<Longrightarrow> scan_inv (scanRemote_files nd files acc)"
  by (induction files arbitrary: acc) (simp_all add: scanRemote_file_inv)

lemma scanRemote_reply_inv: "scan_inv acc \<Longrightarrow> scan_inv (scanRemote_reply nd err stdout acc)"
  by (simp add: scanRemote_reply_def scanRemote_files_inv)

lemma scan_nodes_inv: "scan_inv acc \<Longrightarrow> scan_inv (scan_nodes env claudeDir nds acc)"
  by (induction nds arbitrary: acc) (simp_all add: scanLocal_inv)

lemma scan_inv_flag: "scan_inv acc \<Longrightarrow> scan_inv ((fst acc)\<lparr>initialScanDone := True\<rparr>, snd acc)"
  by (simp add: scan_inv_def)

lemma scan_inv_scan: "scan_inv acc \<Longrightarrow> scan_inv (scan env claudeDir acc)"
  by (simp add: scan_def Let_def scan_inv_flag scan_nodes_inv)

lemma markKnown_inv: "scan_inv acc \<Longrightarrow> scan_inv (markKnown n f (fst acc), snd acc)"
  by (simp add: scan_inv_def markKnown_def)

lemma scanner_step_inv: "scan_inv acc \<Longrightarrow> scan_inv (scanner_step e acc)"
  by (cases e) (simp_all add: scan_inv_scan scanRemote_reply_inv markKnown_inv)

lemma scanner_run_inv: "scan_inv acc \<Longrightarrow> scan_inv (scanner_run es acc)"
  by (induction es arbitrary: acc) (simp_all add: scanner_step_inv)

lemma emitted_key_session_id: "emitted_key = (\<lambda>p. known_key (fst p) (snd p)) \<circ> session_id"
  by (rule ext) (simp add: emitted_key_def session_id_def)

lemma distinct_keys_ids: "distinct (map emitted_key out) \<Longrightarrow> distinct (map session_id out)"
  unfolding emitted_key_session_id distinct_map
  by (auto dest: inj_on_imageI2)


text \<open>
  C2. Whatever the sequence of scans, replies of remote commands and calls of
  \<open>markKnown\<close> in the life of a scanner, no pair of node name and path is passed to
  \<open>onNewSession\<close> twice: the identities of the emitted sessions are pairwise distinct.
\<close>

theorem C2_discovered_at_most_once:
  "distinct (map session_id (snd (scanner_run es (new_SessionScanner ns thr, []))))"
proof -
  have "scan_inv (new_SessionScanner ns thr, [])" by (simp add: scan_inv_def)
  then have "scan_inv (scanner_run es (new_SessionScanner ns thr, []))" by (rule scanner_run_inv)
  then show ?thesis by (simp add: scan_inv_def distinct_keys_ids)
qed




text \<open>A local scan before \<open>initialScanDone\<close> is set emits only files within the window.\<close>

lemma scanLocal_file_flag [simp]:
  "initialScanDone (fst (scanLocal_file env nd pdir file acc)) = initialScanDone (fst acc)"
  "activeThresholdMin (fst (scanLocal_file env nd pdir file acc)) = activeThresholdMin (fst acc)"
  by (auto simp: scanLocal_file_def Let_def split: option.splits)

lemma scanLocal_files_flag [simp]:
  "initialScanDone (fst (scanLocal_files env nd pdir files acc)) = initialScanDone (fst acc)"
  "activeThresholdMin (fst (scanLocal_files env nd pdir files acc)) = activeThresholdMin (fst acc)"
  by (induction files arbitrary: acc) simp_all

lemma scanLocal_dirs_flag [simp]:
  "initialScanDone (fst (scanLocal_dirs env nd pdirs acc)) = initialScanDone (fst acc)"
  "activeThresholdMin (fst (scanLocal_dirs env nd pdirs acc)) = activeThresholdMin (fst acc)"
  by (induction pdirs arbitrary: acc) (simp_all split: option.splits)


















lemmas scan_eval = scan_def scanLocal_def project_dirs_def path_join_def jsonl_files_def endsWith_def
  scanLocal_file_def known_key_def Let_def new_SessionScanner_def ex_scanner_def ex_disk_def
  ex_local_def ex_remote_def ex_claudeDir_def basename_def projectName_of_def replace_all_dash_def
  replace_leading_dash_def



lemma ex_find_recent: "find_stdout 10 (remote_files ex_host_recent) = (js ''/home/u/.claude/projects/-w-app/s2.jsonl'') @ [newline]"
  by (simp add: find_stdout_def find_selected_def ex_host_recent_def endsWith_def)

lemma ex_trim_recent: "trim ((js ''/home/u/.claude/projects/-w-app/s2.jsonl'') @ [newline]) = (js ''/home/u/.claude/projects/-w-app/s2.jsonl'')"
  by (simp add: trim_def isWhite_def newline_def)

lemma ex_split_recent: "split_nl (js ''/home/u/.claude/projects/-w-app/s2.jsonl'') = [(js ''/home/u/.claude/projects/-w-app/s2.jsonl'')]"
  by (simp add: newline_def)

lemma ex_match: "match_projects (js ''/home/u/.claude/projects/-w-app/s2.jsonl'') = Some (js ''-w-app'')"
  by (simp add: match_here_def)






theorem C2_discovered_at_most_once_witness:
  "map session_id (snd (scanner_run ex_events (new_SessionScanner [ex_local, ex_remote] 10, []))) =
     [((js ''studio''), (js ''/h/.claude/projects/-w-app/s1.jsonl'')),
      ((js ''mini''), (js ''/home/u/.claude/projects/-w-app/s2.jsonl''))] \<and>
   distinct (map session_id (snd (scanner_run ex_events (new_SessionScanner [ex_local, ex_remote] 10, []))))"
proof -
  have "map session_id (snd (scanner_run ex_events (new_SessionScanner [ex_local, ex_remote] 10, []))) =
     [((js ''studio''), (js ''/h/.claude/projects/-w-app/s1.jsonl'')),
      ((js ''mini''), (js ''/home/u/.claude/projects/-w-app/s2.jsonl''))]"
    using ex_trim_recent ex_split_recent ex_match
    by (simp add: ex_events_def ex_find_recent scan_eval scanRemote_reply_def scanRemote_file_def
        session_id_def)
  then show ?thesis
    using C2_discovered_at_most_once [of ex_events "[ex_local, ex_remote]" 10]
    by simp
qed

section \<open>Tailing a file: results\<close>

text \<open>
  C4 (as the code has it). \<open>readNewLines\<close> changes nothing when \<open>statSync\<close> throws, when
  the file is not longer than the stored offset, or when the read throws. Otherwise it
  reads the bytes from the offset to the size, decodes them, puts the stored line buffer in
  front and cuts the text at the line feeds: the complete lines and the rest after the last line
  feed make up the text again, none of them contains a line feed, the rest becomes the new
  line buffer, offset and time of last data are set to the size and the clock, and the
  complete lines that are not blank are handed to \<open>processTranscriptLine\<close> in order. A
  complete line that \<open>trim()\<close> empties is dropped, not forwarded.
\<close>

theorem C4_readNewLines_nonblank_lines:
  "(contents env f = None \<or> (\<exists>bytes. contents env f = Some bytes \<and> length bytes \<le> offset_of st a)
      \<or> readFails env f \<longrightarrow> readNewLines env parse a f st = st) \<and>
   (contents env f = Some bytes \<and> offset_of st a < length bytes \<and> \<not> readFails env f \<longrightarrow>
      (\<exists>complete rest.
         buffer_of st a @ toString_utf8 env (drop (offset_of st a) bytes) = concat (map (\<lambda>l. l @ [newline]) complete) @ rest \<and>
         (\<forall>l \<in> set complete. newline \<notin> set l) \<and> newline \<notin> set rest \<and>
         read_chunk env a f st =
           Some (st\<lparr>fileOffsets := (fileOffsets st)(a \<mapsto> length bytes),
                    lastDataTime := (lastDataTime st)(a \<mapsto> now env),
                    lineBuffers := (lineBuffers st)(a \<mapsto> rest)\<rparr>,
                 filter (\<lambda>l. trim l \<noteq> []) complete) \<and>
         readNewLines env parse a f st =
           foldl (\<lambda>s line. processTranscriptLine parse a line s)
             (st\<lparr>fileOffsets := (fileOffsets st)(a \<mapsto> length bytes),
                 lastDataTime := (lastDataTime st)(a \<mapsto> now env),
                 lineBuffers := (lineBuffers st)(a \<mapsto> rest)\<rparr>)
             (filter (\<lambda>l. trim l \<noteq> []) complete)))"
proof (intro conjI impI)
  assume "contents env f = None \<or> (\<exists>bytes. contents env f = Some bytes \<and> length bytes \<le> offset_of st a)
      \<or> readFails env f"
  then have "read_chunk env a f st = None"
    by (auto simp: read_chunk_def Let_def split: option.splits)
  then show "readNewLines env parse a f st = st" by (simp add: readNewLines_def)
next
  assume h: "contents env f = Some bytes \<and> offset_of st a < length bytes \<and> \<not> readFails env f"
  let ?text = "buffer_of st a @ toString_utf8 env (drop (offset_of st a) bytes)"
  let ?st' = "st\<lparr>fileOffsets := (fileOffsets st)(a \<mapsto> length bytes),
                    lastDataTime := (lastDataTime st)(a \<mapsto> now env),
                    lineBuffers := (lineBuffers st)(a \<mapsto> last (split_nl ?text))\<rparr>"
  have rc: "read_chunk env a f st = Some (?st', filter (\<lambda>l. trim l \<noteq> []) (butlast (split_nl ?text)))"
    using h by (simp add: read_chunk_def Let_def buffer_of_def)
  have "?text = concat (map (\<lambda>l. l @ [newline]) (butlast (split_nl ?text))) @ last (split_nl ?text)"
    by (simp only: split_nl_decomp)
  moreover have "\<forall>l \<in> set (butlast (split_nl ?text)). newline \<notin> set l"
    by (auto dest: in_set_butlast_split)
  moreover have "newline \<notin> set (last (split_nl ?text))"
    using split_nl_no_newline [of "last (split_nl ?text)" ?text] by simp
  moreover have "readNewLines env parse a f st =
      foldl (\<lambda>s line. processTranscriptLine parse a line s) ?st'
        (filter (\<lambda>l. trim l \<noteq> []) (butlast (split_nl ?text)))"
    by (simp add: readNewLines_def rc)
  ultimately show "\<exists>complete rest.
         buffer_of st a @ toString_utf8 env (drop (offset_of st a) bytes) = concat (map (\<lambda>l. l @ [newline]) complete) @ rest \<and>
         (\<forall>l \<in> set complete. newline \<notin> set l) \<and> newline \<notin> set rest \<and>
         read_chunk env a f st =
           Some (st\<lparr>fileOffsets := (fileOffsets st)(a \<mapsto> length bytes),
                    lastDataTime := (lastDataTime st)(a \<mapsto> now env),
                    lineBuffers := (lineBuffers st)(a \<mapsto> rest)\<rparr>,
                 filter (\<lambda>l. trim l \<noteq> []) complete) \<and>
         readNewLines env parse a f st =
           foldl (\<lambda>s line. processTranscriptLine parse a line s)
             (st\<lparr>fileOffsets := (fileOffsets st)(a \<mapsto> length bytes),
                 lastDataTime := (lastDataTime st)(a \<mapsto> now env),
                 lineBuffers := (lineBuffers st)(a \<mapsto> rest)\<rparr>)
             (filter (\<lambda>l. trim l \<noteq> []) complete)"
    using rc by blast
qed



text \<open>
  C4 (as stated) fails: of the two complete lines of the text below, the first, a single
  space, is not forwarded.
\<close>

lemma c4_split:
  "split_nl (toString_utf8 c4_env c4_text) = [(js '' ''), (js ''x''), (js ''y'')]"
  by (simp add: c4_text_def c4_env_def newline_def)

lemma c4_length: "length c4_text = 5"
  by (simp add: c4_text_def)

lemma c4_first_read:
  "read_chunk c4_env 1 c4_file new_provider =
     Some (new_provider\<lparr>fileOffsets := [1 \<mapsto> length c4_text], lastDataTime := [1 \<mapsto> 5000],
                        lineBuffers := [1 \<mapsto> (js ''y'')]\<rparr>, [(js ''x'')])"
proof -
  have l: "0 < length c4_text" by (simp add: c4_length)
  have c: "contents c4_env c4_file = Some c4_text" "\<not> readFails c4_env c4_file"
    "now c4_env = 5000"
    by (simp_all add: c4_env_def)
  show ?thesis
    using l by (simp add: read_chunk_def c offset_of_def buffer_of_def new_provider_def Let_def
        c4_split trim_def isWhite_def)
qed

theorem C4_counterexample:
  "butlast (split_nl (toString_utf8 c4_env c4_text)) = [(js '' ''), (js ''x'')] \<and>
   map_option snd (read_chunk c4_env 1 c4_file new_provider) = Some [(js ''x'')]"
  unfolding c4_first_read by (simp add: c4_split)


theorem C4_readNewLines_nonblank_lines_witness:
  "contents c4_env c4_file = Some c4_text \<and> offset_of new_provider 1 < length c4_text \<and>
   \<not> readFails c4_env c4_file \<and>
   readNewLines c4_env no_parse 1 c4_file new_provider =
     new_provider\<lparr>fileOffsets := [1 \<mapsto> length c4_text], lastDataTime := [1 \<mapsto> 5000],
                   lineBuffers := [1 \<mapsto> (js ''y'')]\<rparr> \<and>
   length c4_text \<le> offset_of (readNewLines c4_env no_parse 1 c4_file new_provider) 1 \<and>
   readNewLines c4_env no_parse 1 c4_file (readNewLines c4_env no_parse 1 c4_file new_provider) =
     readNewLines c4_env no_parse 1 c4_file new_provider"
proof -
  have r: "readNewLines c4_env no_parse 1 c4_file new_provider =
     new_provider\<lparr>fileOffsets := [1 \<mapsto> length c4_text], lastDataTime := [1 \<mapsto> 5000],
                   lineBuffers := [1 \<mapsto> (js ''y'')]\<rparr>"
    unfolding readNewLines_def c4_first_read
    by (simp add: processTranscriptLine_def no_parse_def)
  have c: "contents c4_env c4_file = Some c4_text" by (simp add: c4_env_def)
  have l: "length c4_text \<le> offset_of (readNewLines c4_env no_parse 1 c4_file new_provider) 1"
    unfolding r by (simp add: offset_of_def)
  have o: "offset_of new_provider 1 < length c4_text" "\<not> readFails c4_env c4_file"
    by (simp_all add: offset_of_def new_provider_def c4_length c4_env_def)
  have i: "readNewLines c4_env no_parse 1 c4_file (readNewLines c4_env no_parse 1 c4_file new_provider) =
     readNewLines c4_env no_parse 1 c4_file new_provider"
    using C4_readNewLines_nonblank_lines [of c4_env c4_file
        "readNewLines c4_env no_parse 1 c4_file new_provider" 1 no_parse c4_text] c l
    by blast
  show ?thesis by (intro conjI) (rule c o r l i)+
qed

section \<open>Activity: results\<close>

text \<open>\<open>processRecord\<close> by the kind of record.\<close>

lemma processRecord_assistant:
  "rtype r = (js ''assistant'') \<Longrightarrow> rcontent r = CArray blocks \<Longrightarrow>
   processRecord a r st =
     (if list_ex (\<lambda>b. btype b = (js ''tool_use'')) blocks then
        foldl (\<lambda>s b. toolStart a b s)
          (postMessage (AgentStatus a active)
             ((cancelWaitingTimer a st)\<lparr>agentWaitingStatus :=
                 (agentWaitingStatus (cancelWaitingTimer a st))(a := None)\<rparr>)) blocks
      else if list_ex (\<lambda>b. btype b = (js ''text'')) blocks then startWaitingTimer a 2000 st
      else st)"
  by (simp add: processRecord_def Let_def)

lemma processRecord_user_array:
  "rtype r = (js ''user'') \<Longrightarrow> rcontent r = CArray blocks \<Longrightarrow>
   processRecord a r st =
     (if list_ex (\<lambda>b. btype b = (js ''tool_result'')) blocks then foldl (\<lambda>s b. toolDone a b s) st blocks
      else clearAgentActivity a (cancelWaitingTimer a st))"
  by (simp add: processRecord_def)

lemma processRecord_user_string:
  "rtype r = (js ''user'') \<Longrightarrow> rcontent r = CString c \<Longrightarrow>
   processRecord a r st =
     (if trim c \<noteq> [] then clearAgentActivity a (cancelWaitingTimer a st) else st)"
  by (simp add: processRecord_def)

lemmas ex_defs = ex_block_def ex_tool_use_def ex_tool_result_def ex_prompt_def ex_blank_prompt_def
  ex_text_def

lemma ex_busy_eq:
  "ex_busy = new_provider\<lparr>activeToolIds := [1 \<mapsto> {(js ''t1'')}],
      activeToolStatuses := [1 \<mapsto> [((js ''t1''), (js ''Reading a.ts''))]],
      posted := [AgentStatus 1 active, AgentToolStart 1 (js ''t1'') (js ''Reading a.ts'')]\<rparr>"
  by (simp add: ex_busy_def ex_defs processRecord_assistant [where blocks = "[ex_block (js ''tool_use'') (js ''t1'') []]"]
      toolStart_def cancelWaitingTimer_def postMessage_def new_provider_def formatToolStatus_def basename_def Let_def)

lemma unmatched_doneTimers [simp]: "unmatched (st\<lparr>doneTimers := x\<rparr>) a t = unmatched st a t"
  by (simp add: unmatched_def)

lemma alist_delete_absent: "k \<notin> fst ` set al \<Longrightarrow> AList.delete k al = al"
  by (induction al) auto

lemma ids_absent:
  "(case m a of None \<Rightarrow> True | Some s \<Rightarrow> t \<notin> s) \<Longrightarrow>
   (case m a of None \<Rightarrow> m | Some s \<Rightarrow> m(a \<mapsto> s - {t})) = m"
  by (cases "m a") (simp_all add: map_upd_triv)

lemma statuses_absent:
  "(case m a of None \<Rightarrow> True | Some al \<Rightarrow> t \<notin> fst ` set al) \<Longrightarrow>
   (case m a of None \<Rightarrow> m | Some al \<Rightarrow> m(a \<mapsto> AList.delete t al)) = m"
  by (cases "m a") (simp_all add: map_upd_triv alist_delete_absent)

lemma toolDone_unmatched:
  assumes "unmatched st a (tool_use_id b)"
  shows "toolDone a b st =
           (if is_tool_result b then st\<lparr>doneTimers := doneTimers st @ [(a, tool_use_id b)]\<rparr> else st)"
proof -
  from assms have
    i: "(case activeToolIds st a of None \<Rightarrow> activeToolIds st
         | Some s \<Rightarrow> (activeToolIds st)(a \<mapsto> s - {tool_use_id b})) = activeToolIds st"
    and s: "(case activeToolStatuses st a of None \<Rightarrow> activeToolStatuses st
         | Some m \<Rightarrow> (activeToolStatuses st)(a \<mapsto> AList.delete (tool_use_id b) m)) = activeToolStatuses st"
    by (simp_all add: unmatched_def ids_absent statuses_absent)
  show ?thesis
    by (simp add: toolDone_def is_tool_result_def Let_def i s)
qed

lemma toolDone_all_unmatched:
  "\<forall>b \<in> set blocks. unmatched st a (tool_use_id b) \<Longrightarrow>
   foldl (\<lambda>s b. toolDone a b s) st blocks =
     st\<lparr>doneTimers := doneTimers st @ map (\<lambda>b. (a, tool_use_id b)) (filter is_tool_result blocks)\<rparr>"
proof (induction blocks arbitrary: st)
  case Nil
  then show ?case by simp
next
  case (Cons b bs)
  have u: "unmatched st a (tool_use_id b)" using Cons.prems by simp
  show ?case
  proof (cases "is_tool_result b")
    case True
    let ?s = "st\<lparr>doneTimers := doneTimers st @ [(a, tool_use_id b)]\<rparr>"
    have "\<forall>c \<in> set bs. unmatched ?s a (tool_use_id c)" using Cons.prems by simp
    then have "foldl (\<lambda>s b. toolDone a b s) ?s bs =
       ?s\<lparr>doneTimers := doneTimers ?s @ map (\<lambda>b. (a, tool_use_id b)) (filter is_tool_result bs)\<rparr>"
      by (rule Cons.IH)
    then show ?thesis using True by (simp add: toolDone_unmatched [OF u])
  next
    case False
    have "\<forall>c \<in> set bs. unmatched st a (tool_use_id c)" using Cons.prems by simp
    then have "foldl (\<lambda>s b. toolDone a b s) st bs =
       st\<lparr>doneTimers := doneTimers st @ map (\<lambda>b. (a, tool_use_id b)) (filter is_tool_result bs)\<rparr>"
      by (rule Cons.IH)
    then show ?thesis using False by (simp add: toolDone_unmatched [OF u])
  qed
qed


text \<open>
  C6 (as the code has it). A user record with results whose tool ids are all unmatched
  leaves the agent's active tools, cached statuses, waiting status and waiting timer as
  they are; but for every result block it still arms the 300 ms time-out, and when that
  fires \<open>agentToolDone\<close> is posted for the unmatched id.
\<close>

theorem C6_unmatched_completion_still_notified:
  assumes "rtype r = (js ''user'')" and "rcontent r = CArray blocks"
    and "list_ex (\<lambda>b. btype b = (js ''tool_result'')) blocks"
    and "\<forall>b \<in> set blocks. unmatched st a (tool_use_id b)"
  shows "processRecord a r st =
           st\<lparr>doneTimers := doneTimers st @ map (\<lambda>b. (a, tool_use_id b)) (filter is_tool_result blocks)\<rparr> \<and>
         (doneTimers st = [] \<and> blocks = [b] \<and> is_tool_result b \<longrightarrow>
            fireDoneTimer (processRecord a r st) = st\<lparr>posted := posted st @ [AgentToolDone a (tool_use_id b)]\<rparr>)"
proof -
  have p: "processRecord a r st =
           st\<lparr>doneTimers := doneTimers st @ map (\<lambda>b. (a, tool_use_id b)) (filter is_tool_result blocks)\<rparr>"
    using assms(3) by (simp add: processRecord_user_array [OF assms(1,2)] toolDone_all_unmatched [OF assms(4)])
  show ?thesis
  proof (intro conjI impI)
    show "processRecord a r st =
           st\<lparr>doneTimers := doneTimers st @ map (\<lambda>b. (a, tool_use_id b)) (filter is_tool_result blocks)\<rparr>"
      by (rule p)
  next
    assume "doneTimers st = [] \<and> blocks = [b] \<and> is_tool_result b"
    then show "fireDoneTimer (processRecord a r st) = st\<lparr>posted := posted st @ [AgentToolDone a (tool_use_id b)]\<rparr>"
      by (simp add: p fireDoneTimer_def postMessage_def)
  qed
qed

theorem C6_unmatched_completion_still_notified_witness:
  "unmatched new_provider 1 (js ''t1'') \<and>
   processRecord 1 ex_tool_result new_provider = new_provider\<lparr>doneTimers := [(1, (js ''t1''))]\<rparr>"
  using C6_unmatched_completion_still_notified [of ex_tool_result "[ex_block (js ''tool_result'') [] (js ''t1'')]" new_provider 1]
  by (simp add: unmatched_def new_provider_def ex_defs is_tool_result_def)


text \<open>
  C6 (as stated) fails: with no tool running, a result for \<open>t1\<close> makes the provider post
  \<open>agentToolDone\<close> for \<open>t1\<close>.
\<close>

theorem C6_counterexample:
  "unmatched new_provider 1 (js ''t1'') \<and>
   posted (fireDoneTimer (processRecord 1 ex_tool_result new_provider)) = [AgentToolDone 1 (js ''t1'')]"
  by (simp add: unmatched_def new_provider_def ex_defs
      processRecord_user_array [where blocks = "[ex_block (js ''tool_result'') [] (js ''t1'')]"]
      toolDone_def fireDoneTimer_def postMessage_def Let_def)

lemma clear_after_cancel:
  "clearAgentActivity a (cancelWaitingTimer a st) =
     st\<lparr>waitingTimers := (waitingTimers st)(a := None),
        activeToolIds := (activeToolIds st)(a := None),
        activeToolStatuses := (activeToolStatuses st)(a := None),
        agentWaitingStatus := (agentWaitingStatus st)(a := None),
        posted := posted st @ [AgentToolsClear a, AgentStatus a active]\<rparr>"
  by (simp add: clearAgentActivity_def cancelWaitingTimer_def postMessage_def)

lemma new_prompt_cases:
  assumes "new_prompt r"
  shows "processRecord a r st = clearAgentActivity a (cancelWaitingTimer a st)"
proof (cases "rcontent r")
  case (CArray blocks)
  with assms show ?thesis by (simp add: new_prompt_def processRecord_user_array)
next
  case (CString c)
  with assms show ?thesis by (simp add: new_prompt_def processRecord_user_string)
next
  case COther
  with assms show ?thesis by (simp add: new_prompt_def)
qed


text \<open>
  C7 (as the code has it). A user record whose content is an array without a result
  block, or a string that is not blank, cancels the waiting timer, removes the agent's
  active tools, cached statuses and waiting status, and posts exactly \<open>agentToolsClear\<close>
  and then \<open>agentStatus active\<close>; it arms no time-out of \<open>agentToolDone\<close>. A user record
  whose content is a blank string changes nothing. A result that arrives after the clear
  still arms the time-out of \<open>agentToolDone\<close>, which is posted when it fires, also for an
  id that the prompt has cleared.
\<close>

theorem C7_new_prompt_clears:
  "(new_prompt r \<longrightarrow>
      processRecord a r st =
        st\<lparr>waitingTimers := (waitingTimers st)(a := None),
           activeToolIds := (activeToolIds st)(a := None),
           activeToolStatuses := (activeToolStatuses st)(a := None),
           agentWaitingStatus := (agentWaitingStatus st)(a := None),
           posted := posted st @ [AgentToolsClear a, AgentStatus a active]\<rparr>) \<and>
   (rtype r' = (js ''user'') \<and> rcontent r' = CString c \<and> trim c = [] \<longrightarrow> processRecord a r' st = st) \<and>
   (new_prompt r \<and> rtype r2 = (js ''user'') \<and> rcontent r2 = CArray [b] \<and> is_tool_result b \<longrightarrow>
      processRecord a r2 (processRecord a r st) =
        (processRecord a r st)\<lparr>doneTimers := doneTimers st @ [(a, tool_use_id b)]\<rparr> \<and>
      (doneTimers st = [] \<longrightarrow>
         posted (fireDoneTimer (processRecord a r2 (processRecord a r st))) =
           posted st @ [AgentToolsClear a, AgentStatus a active, AgentToolDone a (tool_use_id b)]))"
proof (intro conjI impI)
  assume "new_prompt r"
  then show "processRecord a r st =
        st\<lparr>waitingTimers := (waitingTimers st)(a := None),
           activeToolIds := (activeToolIds st)(a := None),
           activeToolStatuses := (activeToolStatuses st)(a := None),
           agentWaitingStatus := (agentWaitingStatus st)(a := None),
           posted := posted st @ [AgentToolsClear a, AgentStatus a active]\<rparr>"
    by (simp only: new_prompt_cases clear_after_cancel)
next
  assume "rtype r' = (js ''user'') \<and> rcontent r' = CString c \<and> trim c = []"
  then show "processRecord a r' st = st" by (simp add: processRecord_user_string)
next
  assume h: "new_prompt r \<and> rtype r2 = (js ''user'') \<and> rcontent r2 = CArray [b] \<and> is_tool_result b"
  let ?s = "processRecord a r st"
  have s: "?s = st\<lparr>waitingTimers := (waitingTimers st)(a := None),
           activeToolIds := (activeToolIds st)(a := None),
           activeToolStatuses := (activeToolStatuses st)(a := None),
           agentWaitingStatus := (agentWaitingStatus st)(a := None),
           posted := posted st @ [AgentToolsClear a, AgentStatus a active]\<rparr>"
    using h by (simp only: new_prompt_cases clear_after_cancel)
  have u: "unmatched ?s a (tool_use_id b)" by (simp add: s unmatched_def)
  have d: "doneTimers ?s = doneTimers st" by (simp add: s)
  have "processRecord a r2 ?s = toolDone a b ?s"
    using h by (simp add: processRecord_user_array [where blocks = "[b]"] is_tool_result_def)
  also have "\<dots> = ?s\<lparr>doneTimers := doneTimers ?s @ [(a, tool_use_id b)]\<rparr>"
    using h by (simp add: toolDone_unmatched [OF u])
  finally show r: "processRecord a r2 ?s = ?s\<lparr>doneTimers := doneTimers st @ [(a, tool_use_id b)]\<rparr>"
    by (simp only: d)
  show "posted (fireDoneTimer (processRecord a r2 ?s)) =
           posted st @ [AgentToolsClear a, AgentStatus a active, AgentToolDone a (tool_use_id b)]"
    if "doneTimers st = []"
    using that by (simp add: r fireDoneTimer_def postMessage_def) (simp add: s)
qed

theorem C7_new_prompt_clears_witness:
  "new_prompt ex_prompt \<and> activeToolIds ex_busy 1 = Some {(js ''t1'')} \<and>
   activeToolIds (processRecord 1 ex_prompt ex_busy) 1 = None \<and>
   posted (processRecord 1 ex_prompt ex_busy) =
     posted ex_busy @ [AgentToolsClear 1, AgentStatus 1 active] \<and>
   trim [0x20, 0xA0] = [] \<and>
   processRecord 1 ex_blank_prompt ex_busy = ex_busy \<and>
   is_tool_result (ex_block (js ''tool_result'') [] (js ''t1'')) \<and> doneTimers ex_busy = [] \<and>
   posted (fireDoneTimer (processRecord 1 ex_tool_result (processRecord 1 ex_prompt ex_busy))) =
     posted ex_busy @ [AgentToolsClear 1, AgentStatus 1 active, AgentToolDone 1 (js ''t1'')]"
proof -
  have p: "new_prompt ex_prompt" by (simp add: new_prompt_def ex_defs trim_def isWhite_def)
  have b: "rtype ex_blank_prompt = js ''user''" "rcontent ex_blank_prompt = CString [0x20, 0xA0]"
    "trim [0x20, 0xA0] = []"
    by (simp_all add: ex_defs trim_def isWhite_def)
  have t: "rtype ex_tool_result = js ''user''"
    "rcontent ex_tool_result = CArray [ex_block (js ''tool_result'') [] (js ''t1'')]"
    "is_tool_result (ex_block (js ''tool_result'') [] (js ''t1''))"
    "tool_use_id (ex_block (js ''tool_result'') [] (js ''t1'')) = js ''t1''"
    by (simp_all add: ex_defs is_tool_result_def)
  have d: "doneTimers ex_busy = []" "activeToolIds ex_busy 1 = Some {(js ''t1'')}"
    by (simp_all add: ex_busy_eq new_provider_def)
  note th = C7_new_prompt_clears [of ex_prompt 1 ex_busy ex_blank_prompt "[0x20, 0xA0]" ex_tool_result
      "ex_block (js ''tool_result'') [] (js ''t1'')"]
  have 1: "processRecord 1 ex_prompt ex_busy =
        ex_busy\<lparr>waitingTimers := (waitingTimers ex_busy)(1 := None),
           activeToolIds := (activeToolIds ex_busy)(1 := None),
           activeToolStatuses := (activeToolStatuses ex_busy)(1 := None),
           agentWaitingStatus := (agentWaitingStatus ex_busy)(1 := None),
           posted := posted ex_busy @ [AgentToolsClear 1, AgentStatus 1 active]\<rparr>"
    by (rule mp [OF th [THEN conjunct1] p])
  have "rtype ex_blank_prompt = js ''user'' \<and> rcontent ex_blank_prompt = CString [0x20, 0xA0] \<and>
      trim [0x20, 0xA0] = []"
    by (intro conjI) (rule b)+
  then have 2: "processRecord 1 ex_blank_prompt ex_busy = ex_busy"
    by (rule mp [OF th [THEN conjunct2, THEN conjunct1]])
  have "new_prompt ex_prompt \<and> rtype ex_tool_result = js ''user'' \<and>
      rcontent ex_tool_result = CArray [ex_block (js ''tool_result'') [] (js ''t1'')] \<and>
      is_tool_result (ex_block (js ''tool_result'') [] (js ''t1''))"
    by (intro conjI) (rule p t)+
  from mp [OF th [THEN conjunct2, THEN conjunct2] this]
  have "doneTimers ex_busy = [] \<longrightarrow>
      posted (fireDoneTimer (processRecord 1 ex_tool_result (processRecord 1 ex_prompt ex_busy))) =
        posted ex_busy @ [AgentToolsClear 1, AgentStatus 1 active,
          AgentToolDone 1 (tool_use_id (ex_block (js ''tool_result'') [] (js ''t1'')))]"
    by (rule conjunct2)
  from mp [OF this d(1)]
  have 3: "posted (fireDoneTimer (processRecord 1 ex_tool_result (processRecord 1 ex_prompt ex_busy))) =
           posted ex_busy @ [AgentToolsClear 1, AgentStatus 1 active, AgentToolDone 1 (js ''t1'')]"
    unfolding t(4) .
  have 4: "activeToolIds (processRecord 1 ex_prompt ex_busy) 1 = None"
    "posted (processRecord 1 ex_prompt ex_busy) = posted ex_busy @ [AgentToolsClear 1, AgentStatus 1 active]"
    unfolding 1 by simp_all
  show ?thesis by (intro conjI) (rule p d b t 2 3 4)+
qed


text \<open>
  C7 (as stated) fails twice. A prompt that is a blank string (a space and a no-break
  space) leaves the running tool
  \<open>t1\<close> active. And after a prompt has cleared \<open>t1\<close>, a result for \<open>t1\<close> that arrives later
  still makes the provider post \<open>agentToolDone\<close> for \<open>t1\<close>.
\<close>

theorem C7_counterexample:
  "activeToolIds ex_busy 1 = Some {(js ''t1'')} \<and>
   activeToolIds (processRecord 1 ex_blank_prompt ex_busy) 1 = Some {(js ''t1'')} \<and>
   posted (fireDoneTimer (processRecord 1 ex_tool_result (processRecord 1 ex_prompt ex_busy))) =
     [AgentStatus 1 active, AgentToolStart 1 (js ''t1'') (js ''Reading a.ts''),
      AgentToolsClear 1, AgentStatus 1 active, AgentToolDone 1 (js ''t1'')]"
  by (simp add: ex_busy_eq ex_defs new_provider_def trim_def isWhite_def
      processRecord_user_string [where c = "[0x20, 0xA0]"]
      processRecord_user_string [where c = "(js ''go on'')"]
      processRecord_user_array [where blocks = "[ex_block (js ''tool_result'') [] (js ''t1'')]"]
      clear_after_cancel toolDone_def fireDoneTimer_def postMessage_def Let_def)

lemma toolStart_waitingTimers [simp]: "waitingTimers (toolStart a b st) = waitingTimers st"
  by (simp add: toolStart_def postMessage_def Let_def)

lemma toolStarts_waitingTimers [simp]:
  "waitingTimers (foldl (\<lambda>s b. toolStart a b s) st blocks) = waitingTimers st"
  by (induction blocks arbitrary: st) simp_all

lemma tool_use_cancels:
  assumes "has_tool_use r"
  shows "waitingTimers (processRecord a r st) a = None"
proof (cases "rcontent r")
  case (CArray blocks)
  with assms show ?thesis
    by (simp add: has_tool_use_def processRecord_assistant cancelWaitingTimer_def postMessage_def)
next
  case (CString c)
  with assms show ?thesis by (simp add: has_tool_use_def)
next
  case COther
  with assms show ?thesis by (simp add: has_tool_use_def)
qed

lemma text_only_arms:
  assumes "text_only r"
  shows "processRecord a r st = st\<lparr>waitingTimers := (waitingTimers st)(a \<mapsto> 2000)\<rparr>"
proof (cases "rcontent r")
  case (CArray blocks)
  with assms show ?thesis
    by (simp add: text_only_def processRecord_assistant startWaitingTimer_def cancelWaitingTimer_def Let_def)
next
  case (CString c)
  with assms show ?thesis by (simp add: text_only_def)
next
  case COther
  with assms show ?thesis by (simp add: text_only_def)
qed


text \<open>
  C8 (as the code has it). A text-only assistant record arms the 2 s waiting timer
  whether or not tools are active. When an armed timer fires, the timer is removed, the
  agent's waiting status becomes true and \<open>agentStatus waiting\<close> is posted. An assistant
  record with a tool use, or a new prompt, leaves no timer armed, so that nothing fires
  afterwards.
\<close>

theorem C8_text_only_always_arms:
  "(text_only r \<longrightarrow> processRecord a r st = st\<lparr>waitingTimers := (waitingTimers st)(a \<mapsto> 2000)\<rparr>) \<and>
   (waitingTimers st a = Some d \<longrightarrow>
      fireWaitingTimer a st =
        st\<lparr>waitingTimers := (waitingTimers st)(a := None),
           agentWaitingStatus := (agentWaitingStatus st)(a \<mapsto> True),
           posted := posted st @ [AgentStatus a waiting]\<rparr>) \<and>
   (has_tool_use r' \<or> new_prompt r' \<longrightarrow>
      waitingTimers (processRecord a r' st) a = None \<and>
      fireWaitingTimer a (processRecord a r' st) = processRecord a r' st)"
proof (intro conjI impI)
  assume "text_only r"
  then show "processRecord a r st = st\<lparr>waitingTimers := (waitingTimers st)(a \<mapsto> 2000)\<rparr>"
    by (rule text_only_arms)
next
  assume "waitingTimers st a = Some d"
  then show "fireWaitingTimer a st =
        st\<lparr>waitingTimers := (waitingTimers st)(a := None),
           agentWaitingStatus := (agentWaitingStatus st)(a \<mapsto> True),
           posted := posted st @ [AgentStatus a waiting]\<rparr>"
    by (simp add: fireWaitingTimer_def postMessage_def)
next
  assume h: "has_tool_use r' \<or> new_prompt r'"
  then show c: "waitingTimers (processRecord a r' st) a = None"
  proof
    assume "has_tool_use r'" then show ?thesis by (rule tool_use_cancels)
  next
    assume "new_prompt r'" then show ?thesis by (simp add: new_prompt_cases clear_after_cancel)
  qed
  then show "fireWaitingTimer a (processRecord a r' st) = processRecord a r' st"
    by (simp add: fireWaitingTimer_def)
qed

theorem C8_text_only_always_arms_witness:
  "text_only ex_text \<and> has_tool_use ex_tool_use \<and>
   waitingTimers (processRecord 1 ex_text ex_busy) 1 = Some 2000 \<and>
   agentWaitingStatus (fireWaitingTimer 1 (processRecord 1 ex_text ex_busy)) 1 = Some True \<and>
   waitingTimers (processRecord 1 ex_tool_use (processRecord 1 ex_text ex_busy)) 1 = None \<and>
   new_prompt ex_prompt \<and>
   waitingTimers (processRecord 1 ex_prompt (processRecord 1 ex_text ex_busy)) 1 = None"
  using C8_text_only_always_arms [of ex_text 1 ex_busy]
    C8_text_only_always_arms [of ex_text 1 "processRecord 1 ex_text ex_busy" 2000 ex_tool_use]
    C8_text_only_always_arms [of ex_text 1 "processRecord 1 ex_text ex_busy" 2000 ex_prompt]
  by (simp add: text_only_def has_tool_use_def new_prompt_def ex_defs trim_def isWhite_def)


text \<open>
  C8 (as stated) fails: with the tool \<open>t1\<close> active and no timer armed, a text-only record
  arms the timer.
\<close>

theorem C8_counterexample:
  "activeToolIds ex_busy 1 = Some {(js ''t1'')} \<and>
   waitingTimers ex_busy 1 = None \<and>
   waitingTimers (processRecord 1 ex_text ex_busy) 1 = Some 2000"
  by (simp add: ex_busy_eq ex_defs new_provider_def
      processRecord_assistant [where blocks = "[ex_block (js ''text'') [] []]"]
      startWaitingTimer_def cancelWaitingTimer_def Let_def)



section \<open>Ownership of files: results\<close>

text \<open>Reading a file and processing its lines touch neither \<open>watchedFiles\<close> nor
  \<open>claimedFiles\<close>.\<close>

lemma toolStart_files [simp]:
  "watchedFiles (toolStart a b st) = watchedFiles st" "claimedFiles (toolStart a b st) = claimedFiles st"
  by (simp_all add: toolStart_def postMessage_def Let_def)

lemma toolDone_files [simp]:
  "watchedFiles (toolDone a b st) = watchedFiles st" "claimedFiles (toolDone a b st) = claimedFiles st"
  by (simp_all add: toolDone_def Let_def)

lemma toolStarts_files [simp]:
  "watchedFiles (foldl (\<lambda>s b. toolStart a b s) st blocks) = watchedFiles st"
  "claimedFiles (foldl (\<lambda>s b. toolStart a b s) st blocks) = claimedFiles st"
  by (induction blocks arbitrary: st) simp_all

lemma toolDones_files [simp]:
  "watchedFiles (foldl (\<lambda>s b. toolDone a b s) st blocks) = watchedFiles st"
  "claimedFiles (foldl (\<lambda>s b. toolDone a b s) st blocks) = claimedFiles st"
  by (induction blocks arbitrary: st) simp_all

lemma clear_files [simp]:
  "watchedFiles (clearAgentActivity a st) = watchedFiles st"
  "claimedFiles (clearAgentActivity a st) = claimedFiles st"
  "watchedFiles (cancelWaitingTimer a st) = watchedFiles st"
  "claimedFiles (cancelWaitingTimer a st) = claimedFiles st"
  "watchedFiles (startWaitingTimer a d st) = watchedFiles st"
  "claimedFiles (startWaitingTimer a d st) = claimedFiles st"
  "watchedFiles (postMessage m st) = watchedFiles st"
  "claimedFiles (postMessage m st) = claimedFiles st"
  by (simp_all add: clearAgentActivity_def cancelWaitingTimer_def startWaitingTimer_def postMessage_def Let_def)

lemma processRecord_files [simp]:
  "watchedFiles (processRecord a r st) = watchedFiles st"
  "claimedFiles (processRecord a r st) = claimedFiles st"
  by (cases "rcontent r"; simp add: processRecord_def Let_def)+

lemma processTranscriptLine_files [simp]:
  "watchedFiles (processTranscriptLine parse a line st) = watchedFiles st"
  "claimedFiles (processTranscriptLine parse a line st) = claimedFiles st"
  by (simp_all add: processTranscriptLine_def split: option.splits)

lemma processLines_files [simp]:
  "watchedFiles (foldl (\<lambda>s line. processTranscriptLine parse a line s) st ls) = watchedFiles st"
  "claimedFiles (foldl (\<lambda>s line. processTranscriptLine parse a line s) st ls) = claimedFiles st"
  by (induction ls arbitrary: st) simp_all

lemma read_chunk_files:
  "read_chunk env a f st = Some r \<Longrightarrow>
   watchedFiles (fst r) = watchedFiles st \<and> claimedFiles (fst r) = claimedFiles st"
  by (auto simp: read_chunk_def Let_def split: option.splits if_splits)

lemma readNewLines_files [simp]:
  "watchedFiles (readNewLines env parse a f st) = watchedFiles st"
  "claimedFiles (readNewLines env parse a f st) = claimedFiles st"
  by (auto simp: readNewLines_def dest: read_chunk_files split: option.splits)

lemma updatePersistedFile_files [simp]:
  "watchedFiles (updatePersistedFile a f st) = watchedFiles st"
  "claimedFiles (updatePersistedFile a f st) = claimedFiles st"
  by (simp_all add: updatePersistedFile_def split: option.splits)

lemma claimFile_files:
  "watchedFiles (claimFile env parse a f st) = (watchedFiles st)(a \<mapsto> f)"
  "claimedFiles (claimFile env parse a f st) = insert f (claimedFiles st)"
  by (simp_all add: claimFile_def claim_state_def Let_def)

lemma switchFile_files:
  "watchedFiles (switchFile env parse a f st) = (watchedFiles st)(a \<mapsto> f)"
  "claimedFiles (switchFile env parse a f st) =
     insert f (case watchedFiles st a of None \<Rightarrow> claimedFiles st
               | Some old \<Rightarrow> if old = [] then claimedFiles st else claimedFiles st - {old})"
  by (simp_all add: switchFile_def claimFile_files Let_def split: option.splits)

lemma stopWatching_files:
  "watchedFiles (stopWatching a st) = (watchedFiles st)(a := None)"
  "claimedFiles (stopWatching a st) =
     (case watchedFiles st a of None \<Rightarrow> claimedFiles st
      | Some old \<Rightarrow> if old = [] then claimedFiles st else claimedFiles st - {old})"
  by (simp_all add: stopWatching_def removePersistedState_def cancelWaitingTimer_def Let_def split: option.splits)

lemma own_claim:
  assumes ok: "own_ok w c" and free: "w a = None" and new: "f \<notin> c" and ne: "f \<noteq> []"
  shows "own_ok (w(a \<mapsto> f)) (insert f c)"
proof -
  from ok have c: "\<And>g. g \<in> c \<longleftrightarrow> (\<exists>b. w b = Some g)"
    and u: "\<And>x y g. w x = Some g \<Longrightarrow> w y = Some g \<Longrightarrow> x = y"
    and e: "\<And>x. w x \<noteq> Some []"
    unfolding own_ok_def by blast+
  have nobody: "\<And>x. w x \<noteq> Some f" using new c by blast
  have 1: "\<forall>g. g \<in> insert f c \<longleftrightarrow> (\<exists>b. (w(a \<mapsto> f)) b = Some g)"
  proof (intro allI iffI)
    fix g assume "g \<in> insert f c"
    then show "\<exists>b. (w(a \<mapsto> f)) b = Some g"
    proof
      assume "g = f" then have "(w(a \<mapsto> f)) a = Some g" by simp
      then show ?thesis ..
    next
      assume "g \<in> c"
      then obtain b where b: "w b = Some g" using c by blast
      with free have "b \<noteq> a" by auto
      with b have "(w(a \<mapsto> f)) b = Some g" by simp
      then show ?thesis ..
    qed
  next
    fix g assume "\<exists>b. (w(a \<mapsto> f)) b = Some g"
    then obtain b where b: "(w(a \<mapsto> f)) b = Some g" ..
    show "g \<in> insert f c"
    proof (cases "b = a")
      case True with b show ?thesis by simp
    next
      case False with b have "w b = Some g" by simp
      then show ?thesis using c by blast
    qed
  qed
  have 2: "\<forall>x y g. (w(a \<mapsto> f)) x = Some g \<and> (w(a \<mapsto> f)) y = Some g \<longrightarrow> x = y"
  proof (intro allI impI)
    fix x y g assume h: "(w(a \<mapsto> f)) x = Some g \<and> (w(a \<mapsto> f)) y = Some g"
    show "x = y"
    proof (cases "x = a")
      case True
      with h have g: "g = f" by simp
      show ?thesis
      proof (cases "y = a")
        case True with \<open>x = a\<close> show ?thesis by simp
      next
        case False with h g have "w y = Some f" by simp
        with nobody show ?thesis by blast
      qed
    next
      case False
      with h have x: "w x = Some g" by simp
      show ?thesis
      proof (cases "y = a")
        case True with h have "g = f" by simp
        with x nobody show ?thesis by blast
      next
        case False with h have "w y = Some g" by simp
        with x show ?thesis by (rule u)
      qed
    qed
  qed
  have 3: "\<forall>x. (w(a \<mapsto> f)) x \<noteq> Some []" using e ne by simp
  from 1 2 3 show ?thesis unfolding own_ok_def by blast
qed

lemma own_release:
  assumes ok: "own_ok w c"
  shows "own_ok (w(a := None))
           (case w a of None \<Rightarrow> c | Some old \<Rightarrow> if old = [] then c else c - {old})"
proof -
  from ok have c: "\<And>g. g \<in> c \<longleftrightarrow> (\<exists>b. w b = Some g)"
    and u: "\<And>x y g. w x = Some g \<Longrightarrow> w y = Some g \<Longrightarrow> x = y"
    and e: "\<And>x. w x \<noteq> Some []"
    unfolding own_ok_def by blast+
  show ?thesis
  proof (cases "w a")
    case None
    then have "w(a := None) = w" by (simp add: fun_upd_idem)
    with None ok show ?thesis by simp
  next
    case (Some old)
    with e have one: "old \<noteq> []" by metis
    have 1: "\<forall>g. g \<in> c - {old} \<longleftrightarrow> (\<exists>b. (w(a := None)) b = Some g)"
    proof (intro allI iffI)
      fix g assume g: "g \<in> c - {old}"
      then obtain b where b: "w b = Some g" using c by blast
      with g Some have "b \<noteq> a" by auto
      with b have "(w(a := None)) b = Some g" by simp
      then show "\<exists>b. (w(a := None)) b = Some g" ..
    next
      fix g assume "\<exists>b. (w(a := None)) b = Some g"
      then obtain b where b: "(w(a := None)) b = Some g" ..
      then have ba: "b \<noteq> a" by (auto split: if_splits)
      with b have wb: "w b = Some g" by simp
      then have "g \<in> c" using c by blast
      moreover have "g \<noteq> old"
      proof
        assume "g = old"
        with wb Some have "b = a" by (simp add: u)
        with ba show False by simp
      qed
      ultimately show "g \<in> c - {old}" by simp
    qed
    have 2: "\<forall>x y g. (w(a := None)) x = Some g \<and> (w(a := None)) y = Some g \<longrightarrow> x = y"
    proof (intro allI impI)
      fix x y g assume h: "(w(a := None)) x = Some g \<and> (w(a := None)) y = Some g"
      then have "x \<noteq> a" "y \<noteq> a" by (auto split: if_splits)
      with h have "w x = Some g" "w y = Some g" by simp_all
      then show "x = y" by (rule u)
    qed
    have 3: "\<forall>x. (w(a := None)) x \<noteq> Some []" using e by simp
    from 1 2 3 have "own_ok (w(a := None)) (c - {old})" unfolding own_ok_def by blast
    with Some one show ?thesis by simp
  qed
qed


text \<open>
  \<open>claimFile\<close> on an agent without a file and \<open>switchFile\<close>, each with a path that is
  not claimed, and \<open>stopWatching\<close> keep the invariant; so does the generic scan, which
  takes its candidate from the unclaimed files, and with it every scan that does not go
  through the session-id lookup.
\<close>

lemma claim_keeps:
  assumes "ownership_inv st" "watchedFiles st a = None" "f \<notin> claimedFiles st" "f \<noteq> []"
  shows "ownership_inv (claimFile env parse a f st)"
  using own_claim [of "watchedFiles st" "claimedFiles st" a f] assms
  by (simp add: ownership_inv_def claimFile_files)

lemma stop_keeps: "ownership_inv st \<Longrightarrow> ownership_inv (stopWatching a st)"
  using own_release [of "watchedFiles st" "claimedFiles st" a]
  by (simp add: ownership_inv_def stopWatching_files)

lemma switch_keeps:
  assumes "ownership_inv st" "f \<notin> claimedFiles st" "f \<noteq> []"
  shows "ownership_inv (switchFile env parse a f st)"
proof -
  let ?c = "case watchedFiles st a of None \<Rightarrow> claimedFiles st
            | Some old \<Rightarrow> if old = [] then claimedFiles st else claimedFiles st - {old}"
  have r: "own_ok ((watchedFiles st)(a := None)) ?c"
    using assms(1) by (simp add: ownership_inv_def own_release)
  have "f \<notin> ?c" using assms(2) by (simp split: option.splits)
  then have "own_ok (((watchedFiles st)(a := None))(a \<mapsto> f)) (insert f ?c)"
    using r assms(3) by (intro own_claim) simp_all
  then show ?thesis by (simp add: ownership_inv_def switchFile_files)
qed

lemma set_insert_by [simp]: "set (insert_by cmp x ys) = insert x (set ys)"
  by (induction ys) auto

lemma set_sort_by [simp]: "set (sort_by cmp xs) = set xs"
  by (induction xs) (simp_all add: sort_by_def)

lemma hd_sort_by: "xs \<noteq> [] \<Longrightarrow> hd (sort_by cmp xs) \<in> set xs"
proof -
  assume "xs \<noteq> []"
  then have "set (sort_by cmp xs) \<noteq> {}" by simp
  then have "sort_by cmp xs \<noteq> []" by (simp only: set_empty not_False_eq_True)
  then have "hd (sort_by cmp xs) \<in> set (sort_by cmp xs)" by (rule hd_in_set)
  then show ?thesis by simp
qed

lemma jsonl_files_nonempty: "f \<in> set (jsonl_files pdir ents) \<Longrightarrow> f \<noteq> []"
  by (auto simp: jsonl_files_def path_join_def)

lemma genericScan_keeps:
  assumes inv: "ownership_inv st"
  shows "ownership_inv (genericScan env parse a pdir st)"
proof (cases "readdir env pdir")
  case None
  with inv show ?thesis by (simp add: genericScan_def)
next
  case (Some ents)
  let ?known = "case knownFilesAtLaunch st a of None \<Rightarrow> {} | Some k \<Rightarrow> k"
  let ?unclaimed = "filter (\<lambda>f. f \<notin> ?known \<and> f \<notin> claimedFiles st) (jsonl_files pdir ents)"
  let ?cand = "hd (sort_by (mtime_cmp env) ?unclaimed)"
  show ?thesis
  proof (cases "?unclaimed = []")
    case True
    with inv Some show ?thesis by (simp add: genericScan_def Let_def)
  next
    case False
    then have "?cand \<in> set ?unclaimed" by (rule hd_sort_by)
    then have c: "?cand \<notin> claimedFiles st" "?cand \<noteq> []"
      by (auto dest: jsonl_files_nonempty)
    show ?thesis
    proof (cases "truthy (watchedFiles st a)")
      case True
      have "ownership_inv (switchFile env parse a ?cand st)"
        using inv c by (rule switch_keeps)
      with inv Some False True show ?thesis by (simp add: genericScan_def Let_def)
    next
      case nt: False
      from inv have "watchedFiles st a \<noteq> Some []" by (simp add: ownership_inv_def own_ok_def)
      with nt have "watchedFiles st a = None" by (cases "watchedFiles st a") (auto simp: truthy_def)
      then have "ownership_inv (claimFile env parse a ?cand st)"
        using inv c by (intro claim_keeps)
      with Some False nt show ?thesis by (simp add: genericScan_def Let_def)
    qed
  qed
qed

lemma scanForNewFile_keeps:
  assumes "ownership_inv st"
    and "truthy (agentSessionIds st a) \<longrightarrow> truthy (watchedFiles st a)"
  shows "ownership_inv (scanForNewFile env parse a st)"
  using assms by (simp add: scanForNewFile_def genericScan_keeps split: option.splits)


lemma pd:
  "getProjectDirPath ex_home None (Some ex_ws) = Some ex_pdir"
  "getProjectDirPath ex_home (Some ex_ws) (Some ex_ws) = Some ex_pdir"
  by (simp_all add: getProjectDirPath_def ex_home_def ex_ws_def ex_pdir_def path_join_def dirName_of_def
      backslash_def)

lemma c3_paths:
  "path_join ex_pdir (js ''a.jsonl'') = c3_a" "path_join ex_pdir (js ''b.jsonl'') = c3_b"
  "path_join ex_pdir (js ''c.jsonl'') = c3_c"
  by (simp_all add: path_join_def ex_pdir_def c3_a_def c3_b_def c3_c_def)

lemma c3_distinct:
  "c3_a \<noteq> c3_b" "c3_a \<noteq> c3_c" "c3_b \<noteq> c3_c" "c3_b \<noteq> c3_a" "c3_c \<noteq> c3_a" "c3_c \<noteq> c3_b"
  "c3_a \<noteq> []" "c3_b \<noteq> []" "c3_c \<noteq> []"
  "c3_a \<noteq> ex_pdir" "c3_b \<noteq> ex_pdir" "c3_c \<noteq> ex_pdir" "ex_pdir \<noteq> []"
  by (simp_all add: c3_a_def c3_b_def c3_c_def ex_pdir_def)

lemma c3_files:
  "jsonl_files ex_pdir [] = []"
  "jsonl_files ex_pdir [((js ''a.jsonl''), False)] = [c3_a]"
  "jsonl_files ex_pdir [((js ''a.jsonl''), False), ((js ''b.jsonl''), False)] = [c3_a, c3_b]"
  "jsonl_files ex_pdir [((js ''a.jsonl''), False), ((js ''b.jsonl''), False), ((js ''c.jsonl''), False)] = [c3_a, c3_b, c3_c]"
  by (simp_all add: jsonl_files_def endsWith_def c3_paths [simplified])

lemma c3_session_files:
  "path_join ex_pdir ((js ''a'') @ (js ''.jsonl'')) = c3_a" "path_join ex_pdir ((js ''b'') @ (js ''.jsonl'')) = c3_b"
  by (simp_all add: path_join_def ex_pdir_def c3_a_def c3_b_def)

lemmas c3_eval = c3_env_new_def c3_env_def scanForNewFile_def genericScan_def
  truthy_def lastData_of_def has_priority_def c3_files [simplified] c3_paths [simplified]
  c3_session_files [simplified] c3_distinct
  sort_by_def Let_def
  switchFile_def claimFile_def claim_state_def readNewLines_def read_chunk_def offset_of_def
  updatePersistedFile_def cancelWaitingTimer_def postMessage_def mtime_cmp_def
  startWatchingAgent_def createClaudeTerminal_def pd new_provider_def

lemma c1_run_eq:
  "c1_run = new_provider\<lparr>
      agentSessionIds := [2 \<mapsto> (js ''b'')],
      watchedFiles := [1 \<mapsto> c3_b, 2 \<mapsto> c3_b],
      agentProjectDirs := [(1, ex_pdir), (2, ex_pdir)],
      claimedFiles := {c3_b},
      knownFilesAtLaunch := [1 \<mapsto> {c3_a}, 2 \<mapsto> {c3_a}],
      dirScanTimers := {2, 1},
      lastDataTime := [1 \<mapsto> 2000, 2 \<mapsto> 2000],
      fileWatchers := [1 \<mapsto> c3_b, 2 \<mapsto> c3_b],
      pollingTimers := [1 \<mapsto> c3_b, 2 \<mapsto> c3_b],
      fileOffsets := [1 \<mapsto> 0, 2 \<mapsto> 0],
      lineBuffers := [1 \<mapsto> [], 2 \<mapsto> []]\<rparr>"
  by (simp add: c1_run_def c3_eval)

text \<open>
  C1. The session-id lookup, the one path left out above, does not look at
  \<open>claimedFiles\<close>, and the first history ends in a state that breaks the invariant.
  Agent 1, which has no session id, claims \<open>b.jsonl\<close> in the generic scan; the session-id
  lookup of agent 2 then claims the same file without looking at \<open>claimedFiles\<close>, so both
  agents watch it. When agent 1 is closed afterwards the file leaves \<open>claimedFiles\<close>
  although agent 2 still watches it.
\<close>

theorem C1_session_file_claimed_twice:
  "agentSessionIds c1_run 1 = None \<and> agentSessionIds c1_run 2 = Some (js ''b'') \<and>
   watchedFiles c1_run 1 = Some c3_b \<and> watchedFiles c1_run 2 = Some c3_b \<and>
   c3_b \<in> claimedFiles c1_run \<and>
   watchedFiles (stopWatching 1 c1_run) 2 = Some c3_b \<and>
   c3_b \<notin> claimedFiles (stopWatching 1 c1_run)"
  by (simp add: c1_run_eq stopWatching_def removePersistedState_def cancelWaitingTimer_def Let_def
      c3_distinct new_provider_def)

lemma c3_start_eq:
  "c3_start = new_provider\<lparr>
      agentSessionIds := [1 \<mapsto> (js ''a''), 2 \<mapsto> (js ''b'')],
      watchedFiles := [1 \<mapsto> c3_a, 2 \<mapsto> c3_b],
      agentProjectDirs := [(1, ex_pdir), (2, ex_pdir)],
      claimedFiles := {c3_b, c3_a},
      knownFilesAtLaunch := [1 \<mapsto> {}, 2 \<mapsto> {c3_a}],
      dirScanTimers := {2, 1},
      lastDataTime := [1 \<mapsto> 2000, 2 \<mapsto> 4000],
      fileWatchers := [1 \<mapsto> c3_a, 2 \<mapsto> c3_b],
      pollingTimers := [1 \<mapsto> c3_a, 2 \<mapsto> c3_b],
      fileOffsets := [1 \<mapsto> 0, 2 \<mapsto> 0],
      lineBuffers := [1 \<mapsto> [], 2 \<mapsto> []]\<rparr>"
  by (simp add: c3_start_def c3_eval)

text \<open>
  The priority rule itself: an agent that watches a file and is stale leaves everything as
  it is when another agent of the same project directory watches a file, is stale too and
  has received data later.
\<close>

lemma genericScan_defers:
  assumes "truthy (watchedFiles st a)"
    and "(b, pdir) \<in> set (agentProjectDirs st)" and "b \<noteq> a"
    and "watchedFiles st b \<noteq> None"
    and "now env - lastData_of st b > 3000" and "lastData_of st b > lastData_of st a"
  shows "genericScan env parse a pdir st = st"
proof -
  have "has_priority env st a pdir (lastData_of st a) (b, pdir)"
    using assms(3-6) by (simp add: has_priority_def Let_def)
  then have "list_ex (has_priority env st a pdir (lastData_of st a)) (agentProjectDirs st)"
    using assms(2) by (auto simp: list_ex_iff)
  then show ?thesis
    using assms(1) by (simp add: genericScan_def Let_def split: option.splits)
qed

text \<open>In the second history, when the agent with the older data scans first, it defers.\<close>

lemma c3_defer: "scanForNewFile c3_env_new no_parse 1 c3_start = c3_start"
  by (simp add: c3_start_eq c3_eval)

lemma c3_winner_eq:
  "c3_winner = new_provider\<lparr>
      agentSessionIds := [1 \<mapsto> (js ''a''), 2 \<mapsto> (js ''b'')],
      watchedFiles := [1 \<mapsto> c3_a, 2 \<mapsto> c3_c],
      agentProjectDirs := [(1, ex_pdir), (2, ex_pdir)],
      claimedFiles := {c3_c, c3_a},
      knownFilesAtLaunch := [1 \<mapsto> {}, 2 \<mapsto> {c3_b, c3_a}],
      dirScanTimers := {2, 1},
      lastDataTime := [1 \<mapsto> 2000, 2 \<mapsto> 10000],
      fileWatchers := [1 \<mapsto> c3_a, 2 \<mapsto> c3_c],
      pollingTimers := [1 \<mapsto> c3_a, 2 \<mapsto> c3_c],
      fileOffsets := [1 \<mapsto> 0, 2 \<mapsto> 0],
      lineBuffers := [1 \<mapsto> [], 2 \<mapsto> []],
      posted := [AgentToolsClear 2]\<rparr>"
  by (simp add: c3_winner_def c3_start_eq c3_eval)

text \<open>
  C3. The second history: both agents are stale and see the new file \<open>c.jsonl\<close>. Agent 2,
  whose data is more recent, scans first and switches to \<open>c.jsonl\<close>, releasing
  \<open>b.jsonl\<close>. Agent 1 scans next in the same cycle and does claim a file: it switches to
  \<open>b.jsonl\<close>, the file agent 2 has just released, because the released file is only
  added to the ignore set of agent 2 and agent 2 is no longer stale.
\<close>

theorem C3_loser_claims_released_file:
  "watchedFiles c3_start 1 = Some c3_a \<and> watchedFiles c3_start 2 = Some c3_b \<and>
   lastDataTime c3_start 1 = Some 2000 \<and> lastDataTime c3_start 2 = Some 4000 \<and>
   now c3_env_new = 10000 \<and>
   watchedFiles c3_winner 2 = Some c3_c \<and> watchedFiles c3_winner 1 = Some c3_a \<and>
   watchedFiles c3_cycle 2 = Some c3_c \<and> watchedFiles c3_cycle 1 = Some c3_b"
  by (simp add: c3_cycle_def c3_winner_eq c3_start_eq c3_eval)

section \<open>The standalone server: results\<close>

text \<open>
  C10. When \<open>statSync\<close> succeeds at creation, \<open>createLocalAgent\<close> stores the agent with
  its offset at the size of the file and an empty line buffer, and starts the watching of
  the session file for it. While the file is unchanged a firing of that watching forwards
  nothing and leaves the server as it is; once bytes have been appended, a firing forwards
  the complete lines of the appended bytes only, moves the offset to the new size and keeps
  the incomplete last line. The extension's \<open>claimFile\<close> sets the offset to 0, and its
  initial read forwards the lines that are already in the file, except those that
  \<open>trim()\<close> empties.
\<close>

theorem C10_local_agent_starts_at_end:
  assumes "contents env0 (jsonlFile session) = Some present"
    and "contents env1 (jsonlFile session) = Some (present @ appended)"
    and "appended \<noteq> []" and "\<not> readFails env1 (jsonlFile session)"
  shows "\<exists>agent.
           agents (createLocalAgent env0 session sv) (nextAgentId sv) = Some agent \<and>
           watching (createLocalAgent env0 session sv) (nextAgentId sv) = Some (jsonlFile session) \<and>
           ag_fileOffset agent = length present \<and> ag_lineBuffer agent = [] \<and>
           fileWatcher_fires env0 (nextAgentId sv) (createLocalAgent env0 session sv) =
             (createLocalAgent env0 session sv, []) \<and>
           fileWatcher_fires env1 (nextAgentId sv) (createLocalAgent env0 session sv) =
             ((createLocalAgent env0 session sv)
                \<lparr>agents := (agents (createLocalAgent env0 session sv))
                   (nextAgentId sv \<mapsto>
                      agent\<lparr>ag_fileOffset := length (present @ appended),
                            ag_lineBuffer := last (split_nl (toString_utf8 env1 appended))\<rparr>)\<rparr>,
              butlast (split_nl (toString_utf8 env1 appended))) \<and>
           offset_of (claim_state env0 a (jsonlFile session) st) a = 0 \<and>
           (present \<noteq> [] \<and> \<not> readFails env0 (jsonlFile session) \<longrightarrow>
              map_option snd (read_chunk env0 a (jsonlFile session) (claim_state env0 a (jsonlFile session) st)) =
                Some (filter (\<lambda>l. trim l \<noteq> []) (butlast (split_nl (toString_utf8 env0 present)))))"
proof -
  let ?sv = "createLocalAgent env0 session sv"
  obtain agent where ag: "agents ?sv (nextAgentId sv) = Some agent"
    and off: "ag_fileOffset agent = length present" and buf: "ag_lineBuffer agent = []"
    using assms(1) by (simp add: createLocalAgent_def Let_def)
  have w: "watching ?sv (nextAgentId sv) = Some (jsonlFile session)"
    by (simp add: createLocalAgent_def Let_def)
  have r0: "fileWatcher_read env0 (jsonlFile session) agent = None"
    using assms(1) off by (simp add: fileWatcher_read_def)
  have r1: "fileWatcher_read env1 (jsonlFile session) agent =
      Some (agent\<lparr>ag_fileOffset := length (present @ appended),
                  ag_lineBuffer := last (split_nl (toString_utf8 env1 appended))\<rparr>,
            butlast (split_nl (toString_utf8 env1 appended)))"
    using assms(2-4) off buf by (simp add: fileWatcher_read_def Let_def)
  have f0: "fileWatcher_fires env0 (nextAgentId sv) ?sv = (?sv, [])"
    by (simp only: fileWatcher_fires_def w ag r0 option.case)
  have f1: "fileWatcher_fires env1 (nextAgentId sv) ?sv =
      (?sv\<lparr>agents := (agents ?sv)(nextAgentId sv \<mapsto>
              agent\<lparr>ag_fileOffset := length (present @ appended),
                    ag_lineBuffer := last (split_nl (toString_utf8 env1 appended))\<rparr>)\<rparr>,
       butlast (split_nl (toString_utf8 env1 appended)))"
    by (simp only: fileWatcher_fires_def w ag r1 option.case fst_conv snd_conv)
  have c0: "offset_of (claim_state env0 a (jsonlFile session) st) a = 0"
    by (simp add: offset_of_def claim_state_def Let_def)
  have c1: "map_option snd (read_chunk env0 a (jsonlFile session) (claim_state env0 a (jsonlFile session) st)) =
      Some (filter (\<lambda>l. trim l \<noteq> []) (butlast (split_nl (toString_utf8 env0 present))))"
    if "present \<noteq> [] \<and> \<not> readFails env0 (jsonlFile session)"
    using that assms(1)
    by (simp add: Let_def offset_of_def buffer_of_def claim_state_def read_chunk_def)
  from ag w off buf f0 f1 c0 c1 show ?thesis by blast
qed

lemma c10_lines:
  "split_nl (toString_utf8 (c10_env b) c10_appended) = [js ''new'', js ''par'']"
  "split_nl (toString_utf8 (c10_env b) c10_present) = [js ''old'', []]"
  by (simp_all add: c10_env_def c10_appended_def c10_present_def newline_def)

theorem C10_local_agent_starts_at_end_witness:
  "contents (c10_env c10_present) (jsonlFile ex_session) = Some c10_present \<and>
   contents (c10_env (c10_present @ c10_appended)) (jsonlFile ex_session) = Some (c10_present @ c10_appended) \<and>
   c10_appended \<noteq> [] \<and>
   watching (createLocalAgent (c10_env c10_present) ex_session new_server) 1 = Some (jsonlFile ex_session) \<and>
   (\<exists>agent. agents (createLocalAgent (c10_env c10_present) ex_session new_server) 1 = Some agent \<and>
      ag_fileOffset agent = 4) \<and>
   snd (fileWatcher_fires (c10_env c10_present) 1
          (createLocalAgent (c10_env c10_present) ex_session new_server)) = [] \<and>
   snd (fileWatcher_fires (c10_env (c10_present @ c10_appended)) 1
          (createLocalAgent (c10_env c10_present) ex_session new_server)) = [js ''new''] \<and>
   map_option snd (read_chunk (c10_env c10_present) 1 (jsonlFile ex_session)
          (claim_state (c10_env c10_present) 1 (jsonlFile ex_session) new_provider)) = Some [js ''old'']"
proof -
  let ?sv = "createLocalAgent (c10_env c10_present) ex_session new_server"
  have h1: "contents (c10_env c10_present) (jsonlFile ex_session) = Some c10_present"
    and h2: "contents (c10_env (c10_present @ c10_appended)) (jsonlFile ex_session) =
               Some (c10_present @ c10_appended)"
    and h3: "c10_appended \<noteq> []"
    and h4: "\<not> readFails (c10_env (c10_present @ c10_appended)) (jsonlFile ex_session)"
    and h5: "c10_present \<noteq> [] \<and> \<not> readFails (c10_env c10_present) (jsonlFile ex_session)"
    by (simp_all add: c10_env_def ex_session_def c10_appended_def c10_present_def)
  have n: "nextAgentId new_server = 1" by (simp add: new_server_def)
  have l: "length c10_present = 4" by (simp add: c10_present_def)
  from C10_local_agent_starts_at_end [OF h1 h2 h3 h4, of new_server 1 new_provider]
  obtain agent where
    a: "agents ?sv (nextAgentId new_server) = Some agent"
    and w: "watching ?sv (nextAgentId new_server) = Some (jsonlFile ex_session)"
    and b: "ag_fileOffset agent = length c10_present"
    and f0: "fileWatcher_fires (c10_env c10_present) (nextAgentId new_server) ?sv = (?sv, [])"
    and f1: "snd (fileWatcher_fires (c10_env (c10_present @ c10_appended)) (nextAgentId new_server) ?sv) =
               butlast (split_nl (toString_utf8 (c10_env (c10_present @ c10_appended)) c10_appended))"
    and d: "c10_present \<noteq> [] \<and> \<not> readFails (c10_env c10_present) (jsonlFile ex_session) \<longrightarrow>
              map_option snd (read_chunk (c10_env c10_present) 1 (jsonlFile ex_session)
                 (claim_state (c10_env c10_present) 1 (jsonlFile ex_session) new_provider)) =
                Some (filter (\<lambda>l. trim l \<noteq> [])
                  (butlast (split_nl (toString_utf8 (c10_env c10_present) c10_present))))"
    by (elim exE conjE) simp
  have a': "\<exists>agent. agents ?sv 1 = Some agent \<and> ag_fileOffset agent = 4"
    using a b unfolding n l by blast
  have w': "watching ?sv 1 = Some (jsonlFile ex_session)" using w unfolding n .
  have f0': "snd (fileWatcher_fires (c10_env c10_present) 1 ?sv) = []"
    using f0 unfolding n by simp
  have f1': "snd (fileWatcher_fires (c10_env (c10_present @ c10_appended)) 1 ?sv) = [js ''new'']"
    using f1 unfolding n c10_lines by simp
  from d h5 have e: "map_option snd (read_chunk (c10_env c10_present) 1 (jsonlFile ex_session)
                 (claim_state (c10_env c10_present) 1 (jsonlFile ex_session) new_provider)) = Some [js ''old'']"
    unfolding c10_lines by (simp add: trim_def isWhite_def)
  show ?thesis by (intro conjI) (rule h1 h2 h3 w' a' f0' f1' e)+
qed

end
